theory Spec2Isabelle
  imports Complex_Main
begin

section \<open>JavaScript numbers\<close>

text \<open>
  A JavaScript number is an IEEE-754 double. The embedding keeps the three special values
  that the tracking code can produce and test for (\<open>NaN\<close>, \<open>Infinity\<close>, \<open>-Infinity\<close>) and
  takes every other number as an exact real: overflow and the sign of zero are not
  modelled (a zero divisor counts as \<open>+0\<close>), and the operations \<open>+\<close>, \<open>-\<close>, \<open>*\<close>, \<open>/\<close> below are
  exact. Rounding to the nearest double is a function of its own (\<open>double\<close>, further
  down); the split evaluation of the tracker, where the rounding decides a branch,
  applies it to every arithmetic result.
\<close>

datatype jsnum = Fin real | PInf | NInf | NaN

instantiation jsnum :: "{plus, minus, uminus, times, inverse, ord}"
begin

fun uminus_jsnum :: "jsnum \<Rightarrow> jsnum" where
  "uminus_jsnum (Fin a) = Fin (- a)"
| "uminus_jsnum PInf = NInf"
| "uminus_jsnum NInf = PInf"
| "uminus_jsnum NaN = NaN"

fun plus_jsnum :: "jsnum \<Rightarrow> jsnum \<Rightarrow> jsnum" where
  "plus_jsnum (Fin a) (Fin b) = Fin (a + b)"
| "plus_jsnum (Fin a) PInf = PInf"
| "plus_jsnum (Fin a) NInf = NInf"
| "plus_jsnum PInf (Fin b) = PInf"
| "plus_jsnum PInf PInf = PInf"
| "plus_jsnum NInf (Fin b) = NInf"
| "plus_jsnum NInf NInf = NInf"
| "plus_jsnum PInf NInf = NaN"
| "plus_jsnum NInf PInf = NaN"
| "plus_jsnum NaN y = NaN"
| "plus_jsnum x NaN = NaN"

definition minus_jsnum :: "jsnum \<Rightarrow> jsnum \<Rightarrow> jsnum" where
  "minus_jsnum x y = x + (- y)"

fun times_jsnum :: "jsnum \<Rightarrow> jsnum \<Rightarrow> jsnum" where
  "times_jsnum (Fin a) (Fin b) = Fin (a * b)"
| "times_jsnum (Fin a) PInf = (if a = 0 then NaN else if 0 < a then PInf else NInf)"
| "times_jsnum (Fin a) NInf = (if a = 0 then NaN else if 0 < a then NInf else PInf)"
| "times_jsnum PInf (Fin b) = (if b = 0 then NaN else if 0 < b then PInf else NInf)"
| "times_jsnum NInf (Fin b) = (if b = 0 then NaN else if 0 < b then NInf else PInf)"
| "times_jsnum PInf PInf = PInf"
| "times_jsnum NInf NInf = PInf"
| "times_jsnum PInf NInf = NInf"
| "times_jsnum NInf PInf = NInf"
| "times_jsnum NaN y = NaN"
| "times_jsnum x NaN = NaN"

fun divide_jsnum :: "jsnum \<Rightarrow> jsnum \<Rightarrow> jsnum" where
  "divide_jsnum (Fin a) (Fin b) =
     (if b \<noteq> 0 then Fin (a / b)
      else if a = 0 then NaN else if 0 < a then PInf else NInf)"
| "divide_jsnum (Fin a) PInf = Fin 0"
| "divide_jsnum (Fin a) NInf = Fin 0"
| "divide_jsnum PInf (Fin b) = (if 0 \<le> b then PInf else NInf)"
| "divide_jsnum NInf (Fin b) = (if 0 \<le> b then NInf else PInf)"
| "divide_jsnum PInf PInf = NaN"
| "divide_jsnum PInf NInf = NaN"
| "divide_jsnum NInf PInf = NaN"
| "divide_jsnum NInf NInf = NaN"
| "divide_jsnum NaN y = NaN"
| "divide_jsnum x NaN = NaN"

definition inverse_jsnum :: "jsnum \<Rightarrow> jsnum" where
  "inverse_jsnum x = divide (Fin 1) x"

fun less_jsnum :: "jsnum \<Rightarrow> jsnum \<Rightarrow> bool" where
  "less_jsnum (Fin a) (Fin b) = (a < b)"
| "less_jsnum (Fin a) PInf = True"
| "less_jsnum NInf (Fin b) = True"
| "less_jsnum NInf PInf = True"
| "less_jsnum x y = False"

fun less_eq_jsnum :: "jsnum \<Rightarrow> jsnum \<Rightarrow> bool" where
  "less_eq_jsnum (Fin a) (Fin b) = (a \<le> b)"
| "less_eq_jsnum (Fin a) PInf = True"
| "less_eq_jsnum NInf (Fin b) = True"
| "less_eq_jsnum NInf PInf = True"
| "less_eq_jsnum PInf PInf = True"
| "less_eq_jsnum NInf NInf = True"
| "less_eq_jsnum x y = False"

instance ..

end

text \<open>\<open>isNaN\<close>, truthiness of a number (\<open>if (v)\<close>, \<open>v || d\<close>) and the \<open>Math\<close> functions.\<close>

fun isNaN :: "jsnum \<Rightarrow> bool" where
  "isNaN NaN = True"
| "isNaN x = False"

fun truthy :: "jsnum \<Rightarrow> bool" where
  "truthy (Fin a) = (a \<noteq> 0)"
| "truthy NaN = False"
| "truthy x = True"

fun Math_max :: "jsnum \<Rightarrow> jsnum \<Rightarrow> jsnum" where
  "Math_max NaN y = NaN"
| "Math_max x NaN = NaN"
| "Math_max x y = (if x < y then y else x)"

fun Math_min :: "jsnum \<Rightarrow> jsnum \<Rightarrow> jsnum" where
  "Math_min NaN y = NaN"
| "Math_min x NaN = NaN"
| "Math_min x y = (if y < x then y else x)"

fun Math_floor :: "jsnum \<Rightarrow> jsnum" where
  "Math_floor (Fin a) = Fin (of_int \<lfloor>a\<rfloor>)"
| "Math_floor x = x"

fun Math_round :: "jsnum \<Rightarrow> jsnum" where
  "Math_round (Fin a) = Fin (of_int \<lfloor>a + 1 / 2\<rfloor>)"
| "Math_round x = x"

fun Math_abs :: "jsnum \<Rightarrow> jsnum" where
  "Math_abs (Fin a) = Fin \<bar>a\<bar>"
| "Math_abs NaN = NaN"
| "Math_abs x = PInf"

fun Math_sqrt :: "jsnum \<Rightarrow> jsnum" where
  "Math_sqrt (Fin a) = (if a < 0 then NaN else Fin (sqrt a))"
| "Math_sqrt PInf = PInf"
| "Math_sqrt x = NaN"

fun Math_sin :: "jsnum \<Rightarrow> jsnum" where
  "Math_sin (Fin a) = Fin (sin a)"
| "Math_sin x = NaN"

fun Math_cos :: "jsnum \<Rightarrow> jsnum" where
  "Math_cos (Fin a) = Fin (cos a)"
| "Math_cos x = NaN"

fun Math_exp :: "jsnum \<Rightarrow> jsnum" where
  "Math_exp (Fin a) = Fin (exp a)"
| "Math_exp PInf = PInf"
| "Math_exp NInf = Fin 0"
| "Math_exp NaN = NaN"

definition atan2_real :: "real \<Rightarrow> real \<Rightarrow> real" where
  "atan2_real y x =
     (if 0 < x then arctan (y / x)
      else if x < 0 then (if 0 \<le> y then arctan (y / x) + pi else arctan (y / x) - pi)
      else if 0 < y then pi / 2 else if y < 0 then - (pi / 2) else 0)"

fun Math_atan2 :: "jsnum \<Rightarrow> jsnum \<Rightarrow> jsnum" where
  "Math_atan2 (Fin y) (Fin x) = Fin (atan2_real y x)"
| "Math_atan2 (Fin y) PInf = Fin 0"
| "Math_atan2 (Fin y) NInf = (if 0 \<le> y then Fin pi else Fin (- pi))"
| "Math_atan2 PInf (Fin x) = Fin (pi / 2)"
| "Math_atan2 NInf (Fin x) = Fin (- (pi / 2))"
| "Math_atan2 PInf PInf = Fin (pi / 4)"
| "Math_atan2 PInf NInf = Fin (3 * pi / 4)"
| "Math_atan2 NInf PInf = Fin (- (pi / 4))"
| "Math_atan2 NInf NInf = Fin (- (3 * pi / 4))"
| "Math_atan2 NaN x = NaN"
| "Math_atan2 y NaN = NaN"

definition Math_PI :: jsnum where
  "Math_PI = Fin pi"

subsection \<open>Rounding to a double\<close>

text \<open>
  The nearest integer, ties to the even one; the nearest number with a significand of 53
  bits (for a number in the normal range: with \<open>2^e \<le> |x| < 2^(e+1)\<close> the doubles are the
  multiples of \<open>2^(e-52)\<close>); and the same on JavaScript numbers. A numeric literal of the
  source that is not a double, such as \<open>1609.344\<close>, denotes its rounding.
\<close>

definition round_even :: "real \<Rightarrow> int" where
  "round_even y =
     (let f = \<lfloor>y\<rfloor> in
      if y - of_int f < 1 / 2 then f
      else if 1 / 2 < y - of_int f then f + 1
      else if even f then f else f + 1)"

definition fl :: "real \<Rightarrow> real" where
  "fl x =
     (if x = 0 then 0
      else let ulp = 2 powr (of_int (\<lfloor>log 2 \<bar>x\<bar>\<rfloor> - 52))
           in of_int (round_even (x / ulp)) * ulp)"

fun double :: "jsnum \<Rightarrow> jsnum" where
  "double (Fin x) = Fin (fl x)"
| "double x = x"

section \<open>src/utils/kalmanFilter.js\<close>

subsection \<open>KalmanFilter1D\<close>

text \<open>
  The fields \<open>Q\<close>, \<open>R\<close>, \<open>x\<close>, \<open>P\<close>, \<open>K\<close> of the class; \<open>x = null\<close> is \<open>None\<close>.
\<close>

record KalmanFilter1D =
  kf_Q :: jsnum
  kf_R :: jsnum
  kf_x :: "jsnum option"
  kf_P :: jsnum
  kf_K :: jsnum

text \<open>The constructor: \<open>options.Q || 3\<close>, \<open>options.R || 0.01\<close>.\<close>

definition new_KalmanFilter1D :: "jsnum option \<Rightarrow> jsnum option \<Rightarrow> KalmanFilter1D" where
  "new_KalmanFilter1D optQ optR =
     \<lparr> kf_Q = (case optQ of Some q \<Rightarrow> if truthy q then q else Fin 3 | None \<Rightarrow> Fin 3),
       kf_R = (case optR of Some r \<Rightarrow> if truthy r then r else Fin (1 / 100) | None \<Rightarrow> Fin (1 / 100)),
       kf_x = None, kf_P = Fin 1, kf_K = Fin 0 \<rparr>"

text \<open>\<open>filter(measurement)\<close>: the updated filter and the returned value.\<close>

definition kf_filter :: "jsnum \<Rightarrow> KalmanFilter1D \<Rightarrow> KalmanFilter1D \<times> jsnum" where
  "kf_filter measurement f =
     (case kf_x f of
        None \<Rightarrow> (f\<lparr>kf_x := Some measurement\<rparr>, measurement)
      | Some x_pred \<Rightarrow>
          let P_pred = kf_P f + kf_Q f;
              k = P_pred / (P_pred + kf_R f);
              x' = x_pred + k * (measurement - x_pred)
          in (f\<lparr>kf_K := k, kf_x := Some x', kf_P := (Fin 1 - k) * P_pred\<rparr>, x'))"

definition adjustParameters :: "jsnum \<Rightarrow> KalmanFilter1D \<Rightarrow> KalmanFilter1D" where
  "adjustParameters accuracy f = f\<lparr>kf_R := Math_max (Fin (1 / 1000)) (accuracy / Fin 20)\<rparr>"

definition kf_reset :: "KalmanFilter1D \<Rightarrow> KalmanFilter1D" where
  "kf_reset f = f\<lparr>kf_x := None, kf_P := Fin 1, kf_K := Fin 0\<rparr>"

subsection \<open>WeightedGPSFilter\<close>

record reading =
  r_lat :: jsnum
  r_lon :: jsnum
  r_accuracy :: jsnum
  r_timestamp :: jsnum

record WeightedGPSFilter =
  windowSize :: nat
  readings :: "reading list"

record weighted_position =
  w_lat :: jsnum
  w_lon :: jsnum
  w_accuracy :: jsnum

definition new_WeightedGPSFilter :: "nat \<Rightarrow> WeightedGPSFilter" where
  "new_WeightedGPSFilter n = \<lparr> windowSize = n, readings = [] \<rparr>"

text \<open>\<open>readings.reduce((acc, r) => acc + r.accuracy, 0) / readings.length\<close>.\<close>

definition getAverageAccuracy :: "WeightedGPSFilter \<Rightarrow> jsnum" where
  "getAverageAccuracy w =
     (if readings w = [] then Fin 0
      else foldl (\<lambda>acc r. acc + r_accuracy r) (Fin 0) (readings w)
             / Fin (real (length (readings w))))"

text \<open>
  The body of the \<open>forEach\<close> of \<open>getWeightedAverage\<close>, on the triple
  \<open>(totalWeight, weightedLat, weightedLon)\<close>.
\<close>

definition weigh :: "jsnum \<times> jsnum \<times> jsnum \<Rightarrow> reading \<Rightarrow> jsnum \<times> jsnum \<times> jsnum" where
  "weigh acc r =
     (case acc of (totalWeight, weightedLat, weightedLon) \<Rightarrow>
        let weight = Fin 1 / (r_accuracy r * r_accuracy r)
        in (totalWeight + weight, weightedLat + r_lat r * weight, weightedLon + r_lon r * weight))"

definition getWeightedAverage :: "WeightedGPSFilter \<Rightarrow> weighted_position option" where
  "getWeightedAverage w =
     (if readings w = [] then None
      else case foldl weigh (Fin 0, Fin 0, Fin 0) (readings w) of
        (totalWeight, weightedLat, weightedLon) \<Rightarrow>
          Some \<lparr> w_lat = weightedLat / totalWeight,
                 w_lon = weightedLon / totalWeight,
                 w_accuracy = getAverageAccuracy w \<rparr>)"

text \<open>\<open>addReading\<close>: push, drop the oldest reading beyond the window, average.\<close>

definition addReading :: "reading \<Rightarrow> WeightedGPSFilter \<Rightarrow> WeightedGPSFilter \<times> weighted_position option" where
  "addReading r w =
     (let rs = readings w @ [r];
          w' = w\<lparr>readings := (if windowSize w < length rs then tl rs else rs)\<rparr>
      in (w', getWeightedAverage w'))"

definition wf_reset :: "WeightedGPSFilter \<Rightarrow> WeightedGPSFilter" where
  "wf_reset w = w\<lparr>readings := []\<rparr>"

section \<open>src/utils/trajectoryPrediction.js\<close>

subsection \<open>LinearRegression\<close>

record LinearRegression =
  slope :: jsnum
  intercept :: jsnum
  trained :: bool

definition new_LinearRegression :: LinearRegression where
  "new_LinearRegression = \<lparr> slope = Fin 0, intercept = Fin 0, trained = False \<rparr>"

text \<open>
  The body of the loop of \<open>train\<close>, on \<open>(sumX, sumY, sumXY, sumXX)\<close>; a data point
  \<open>{x, y}\<close> is a pair.
\<close>

definition accumulate :: "jsnum \<times> jsnum \<times> jsnum \<times> jsnum \<Rightarrow> jsnum \<times> jsnum \<Rightarrow> jsnum \<times> jsnum \<times> jsnum \<times> jsnum" where
  "accumulate acc point =
     (case acc of (sumX, sumY, sumXY, sumXX) \<Rightarrow>
        (sumX + fst point, sumY + snd point,
         sumXY + fst point * snd point, sumXX + fst point * fst point))"

definition train :: "(jsnum \<times> jsnum) list \<Rightarrow> LinearRegression \<Rightarrow> LinearRegression" where
  "train data m =
     (if length data < 2 then m
      else case foldl accumulate (Fin 0, Fin 0, Fin 0, Fin 0) data of
        (sumX, sumY, sumXY, sumXX) \<Rightarrow>
          let n = Fin (real (length data));
              sl = (n * sumXY - sumX * sumY) / (n * sumXX - sumX * sumX)
          in \<lparr> slope = sl, intercept = (sumY - sl * sumX) / n, trained = True \<rparr>)"

definition predict :: "jsnum \<Rightarrow> LinearRegression \<Rightarrow> jsnum option" where
  "predict v m = (if \<not> trained m then None else Some (slope m * v + intercept m))"

subsection \<open>MovementPatternAnalyzer\<close>

text \<open>
  A history entry \<open>{lat, lon, timestamp, speed, heading}\<close>; \<open>None\<close> is \<open>undefined\<close>, which
  arithmetic reads as \<open>NaN\<close> (\<open>num\<close>).
\<close>

record history_position =
  hp_lat :: "jsnum option"
  hp_lon :: "jsnum option"
  hp_timestamp :: jsnum
  hp_speed :: "jsnum option"
  hp_heading :: "jsnum option"

fun num :: "jsnum option \<Rightarrow> jsnum" where
  "num None = NaN"
| "num (Some v) = v"

record velocity =
  v_lat :: jsnum
  v_lon :: jsnum
  v_timestamp :: jsnum

record MovementPatternAnalyzer =
  historySize :: nat
  positionHistory :: "history_position list"
  velocityHistory :: "velocity list"
  accelerationHistory :: "velocity list"
  latModel :: LinearRegression
  lonModel :: LinearRegression
  speedModel :: LinearRegression
  headingModel :: LinearRegression

definition new_MovementPatternAnalyzer :: "nat \<Rightarrow> MovementPatternAnalyzer" where
  "new_MovementPatternAnalyzer n =
     \<lparr> historySize = n, positionHistory = [], velocityHistory = [], accelerationHistory = [],
       latModel = new_LinearRegression, lonModel = new_LinearRegression,
       speedModel = new_LinearRegression, headingModel = new_LinearRegression \<rparr>"

text \<open>\<open>xs.push(v); if (xs.length > size) xs.shift()\<close>.\<close>

definition push_bounded :: "nat \<Rightarrow> 'a \<Rightarrow> 'a list \<Rightarrow> 'a list" where
  "push_bounded bound v xs = (let ys = xs @ [v] in if bound < length ys then tl ys else ys)"

definition updateVelocityAndAcceleration :: "MovementPatternAnalyzer \<Rightarrow> MovementPatternAnalyzer" where
  "updateVelocityAndAcceleration a =
     (if length (positionHistory a) < 2 then a
      else
        let current = last (positionHistory a);
            previous = last (butlast (positionHistory a));
            dt = (hp_timestamp current - hp_timestamp previous) / Fin 1000
        in if dt \<le> Fin 0 then a
           else
             let vel = \<lparr> v_lat = (num (hp_lat current) - num (hp_lat previous)) / dt,
                         v_lon = (num (hp_lon current) - num (hp_lon previous)) / dt,
                         v_timestamp = hp_timestamp current \<rparr>;
                 a1 = a\<lparr>velocityHistory := push_bounded (historySize a) vel (velocityHistory a)\<rparr>
             in if 2 \<le> length (velocityHistory a1) then
                  let currVel = last (velocityHistory a1);
                      prevVel = last (butlast (velocityHistory a1));
                      accDt = (v_timestamp currVel - v_timestamp prevVel) / Fin 1000
                  in if Fin 0 < accDt then
                       a1\<lparr>accelerationHistory :=
                            push_bounded (historySize a1)
                              \<lparr> v_lat = (v_lat currVel - v_lat prevVel) / accDt,
                                v_lon = (v_lon currVel - v_lon prevVel) / accDt,
                                v_timestamp = v_timestamp currVel \<rparr>
                              (accelerationHistory a1)\<rparr>
                     else a1
                else a1)"

text \<open>The seconds of a history entry after the first one: \<open>(pos.timestamp - baseTime) / 1000\<close>.\<close>

definition relativeTime :: "history_position list \<Rightarrow> jsnum \<Rightarrow> jsnum" where
  "relativeTime h t = (t - hp_timestamp (hd h)) / Fin 1000"

definition trainModels :: "MovementPatternAnalyzer \<Rightarrow> MovementPatternAnalyzer" where
  "trainModels a =
     (let h = positionHistory a in
      if length h < 3 then a
      else
        let rel = (\<lambda>pos. relativeTime h (hp_timestamp pos));
            latData = map (\<lambda>pos. (rel pos, num (hp_lat pos))) h;
            lonData = map (\<lambda>pos. (rel pos, num (hp_lon pos))) h;
            speedData = List.map_filter (\<lambda>pos. map_option (\<lambda>v. (rel pos, v)) (hp_speed pos)) h;
            headingData = List.map_filter (\<lambda>pos. map_option (\<lambda>v. (rel pos, v)) (hp_heading pos)) h
        in a\<lparr>latModel := train latData (latModel a),
             lonModel := train lonData (lonModel a),
             speedModel := (if 2 \<le> length speedData then train speedData (speedModel a)
                            else speedModel a),
             headingModel := (if 2 \<le> length headingData then train headingData (headingModel a)
                              else headingModel a)\<rparr>)"

text \<open>\<open>MovementPatternAnalyzer.addPosition\<close>.\<close>

definition analyzer_addPosition :: "history_position \<Rightarrow> MovementPatternAnalyzer \<Rightarrow> MovementPatternAnalyzer" where
  "analyzer_addPosition pos a =
     trainModels (updateVelocityAndAcceleration
       (a\<lparr>positionHistory := push_bounded (historySize a) pos (positionHistory a)\<rparr>))"

record predicted_position =
  pp_lat :: jsnum
  pp_lon :: jsnum
  pp_timestamp :: jsnum
  pp_confidence :: jsnum
  pp_isPredicted :: bool

definition predictPosition :: "jsnum \<Rightarrow> MovementPatternAnalyzer \<Rightarrow> predicted_position option" where
  "predictPosition futureTimestamp a =
     (let h = positionHistory a in
      if length h < 3 then None
      else
        let relativeFutureTime = relativeTime h futureTimestamp in
        case predict relativeFutureTime (latModel a) of
          None \<Rightarrow> None
        | Some predictedLat \<Rightarrow>
            (case predict relativeFutureTime (lonModel a) of
               None \<Rightarrow> None
             | Some predictedLon \<Rightarrow>
                 let timeGap = (futureTimestamp - hp_timestamp (last h)) / Fin 1000;
                     timeDecay = Math_exp (- timeGap / Fin 30);
                     confidence = Fin (9 / 10) * timeDecay
                 in Some \<lparr> pp_lat = predictedLat, pp_lon = predictedLon,
                             pp_timestamp = futureTimestamp,
                             pp_confidence = Math_max (Fin (1 / 10)) confidence,
                             pp_isPredicted = True \<rparr>))"

definition analyzer_reset :: "MovementPatternAnalyzer \<Rightarrow> MovementPatternAnalyzer" where
  "analyzer_reset a =
     a\<lparr>positionHistory := [], velocityHistory := [], accelerationHistory := [],
       latModel := new_LinearRegression, lonModel := new_LinearRegression,
       speedModel := new_LinearRegression, headingModel := new_LinearRegression\<rparr>"

subsection \<open>GPSGapFiller\<close>

text \<open>
  The argument of \<open>processPosition\<close>: an object with optional \<open>lat\<close>, \<open>lon\<close>, \<open>timestamp\<close>,
  \<open>speed\<close>, \<open>heading\<close>, \<open>coords.latitude\<close>, \<open>coords.longitude\<close> and an \<open>isPredicted\<close> flag.
  \<open>Date.now()\<close> is the argument \<open>now\<close>, in milliseconds.
\<close>

record gap_position =
  gp_lat :: "jsnum option"
  gp_lon :: "jsnum option"
  gp_timestamp :: "jsnum option"
  gp_accuracy :: "jsnum option"
  gp_speed :: "jsnum option"
  gp_heading :: "jsnum option"
  gp_coords_latitude :: "jsnum option"
  gp_coords_longitude :: "jsnum option"
  gp_isPredicted :: bool

record GPSGapFiller =
  patternAnalyzer :: MovementPatternAnalyzer
  isInGap :: bool
  gapStartTime :: real
  lastKnownPosition :: "gap_position option"
  maxGapDuration :: real

definition new_GPSGapFiller :: GPSGapFiller where
  "new_GPSGapFiller =
     \<lparr> patternAnalyzer = new_MovementPatternAnalyzer 20, isInGap = False, gapStartTime = 0,
       lastKnownPosition = None, maxGapDuration = 60000 \<rparr>"

text \<open>\<open>a || b\<close> on an optional number.\<close>

definition or_else :: "jsnum option \<Rightarrow> jsnum option \<Rightarrow> jsnum option" where
  "or_else a b = (case a of Some v \<Rightarrow> if truthy v then Some v else b | None \<Rightarrow> b)"

definition fillGap :: "real \<Rightarrow> GPSGapFiller \<Rightarrow> predicted_position option" where
  "fillGap now g =
     (let gapDuration = now - gapStartTime g in
      if maxGapDuration g < gapDuration then None
      else case predictPosition (Fin now) (patternAnalyzer g) of
        Some predicted \<Rightarrow> if Fin (3 / 10) < pp_confidence predicted then Some predicted else None
      | None \<Rightarrow> None)"

datatype processed = RealPosition gap_position | Filled "predicted_position option"

definition processPosition :: "real \<Rightarrow> gap_position option \<Rightarrow> GPSGapFiller \<Rightarrow> GPSGapFiller \<times> processed" where
  "processPosition now position g =
     (case (case position of Some p \<Rightarrow> if gp_isPredicted p then None else Some p | None \<Rightarrow> None) of
        Some p \<Rightarrow>
          (g\<lparr>patternAnalyzer :=
               analyzer_addPosition
                 \<lparr> hp_lat = or_else (gp_lat p) (gp_coords_latitude p),
                   hp_lon = or_else (gp_lon p) (gp_coords_longitude p),
                   hp_timestamp = num (or_else (gp_timestamp p) (Some (Fin now))),
                   hp_speed = gp_speed p, hp_heading = gp_heading p \<rparr>
                 (patternAnalyzer g),
             lastKnownPosition := Some p, isInGap := False\<rparr>,
           RealPosition p)
      | None \<Rightarrow>
          let g' = (if \<not> isInGap g then g\<lparr>isInGap := True, gapStartTime := now\<rparr> else g)
          in (g', Filled (fillGap now g')))"

definition gap_reset :: "GPSGapFiller \<Rightarrow> GPSGapFiller" where
  "gap_reset g =
     g\<lparr>patternAnalyzer := analyzer_reset (patternAnalyzer g), isInGap := False,
       gapStartTime := 0, lastKnownPosition := None\<rparr>"

subsection \<open>Runs of the gap filler\<close>

text \<open>
  A run of \<open>processPosition\<close> calls, each with its clock reading and its argument (\<open>None\<close>
  is a call without a position), and the fact that the latitude and longitude models are
  trained once the history holds three points.
\<close>

fun gap_run :: "(real \<times> gap_position option) list \<Rightarrow> GPSGapFiller \<Rightarrow> GPSGapFiller" where
  "gap_run [] g = g"
| "gap_run (c # cs) g = gap_run cs (fst (processPosition (fst c) (snd c) g))"

definition models_trained :: "MovementPatternAnalyzer \<Rightarrow> bool" where
  "models_trained a =
     (3 \<le> length (positionHistory a) \<longrightarrow> trained (latModel a) \<and> trained (lonModel a))"

section \<open>src/utils/sensorFusion.js\<close>

text \<open>
  Of the sensor fusion, position ingestion reaches the dead-reckoning estimator only
  (\<open>SensorFusionManager.updateGPSPosition\<close>); the step counter and the activity classifier
  are fed by motion events and are left out of the state.
\<close>

datatype js_heading = Undefined | Null | Heading jsnum

record DeadReckoning =
  dr_lastKnownPosition :: "(jsnum \<times> jsnum \<times> real) option"
  dr_heading :: js_heading
  dr_stepLength :: jsnum
  dr_stepsSinceLastGPS :: jsnum
  dr_confidenceDecayRate :: jsnum
  dr_currentConfidence :: jsnum

definition new_DeadReckoning :: DeadReckoning where
  "new_DeadReckoning =
     \<lparr> dr_lastKnownPosition = None, dr_heading = Heading (Fin 0), dr_stepLength = Fin (3 / 4),
       dr_stepsSinceLastGPS = Fin 0, dr_confidenceDecayRate = Fin (95 / 100),
       dr_currentConfidence = Fin 1 \<rparr>"

definition updateGPSPosition :: "real \<Rightarrow> jsnum \<Rightarrow> jsnum \<Rightarrow> js_heading \<Rightarrow> DeadReckoning \<Rightarrow> DeadReckoning" where
  "updateGPSPosition now lat lon heading d =
     d\<lparr>dr_lastKnownPosition := Some (lat, lon, now),
       dr_heading := (if heading \<noteq> Undefined then heading else dr_heading d),
       dr_stepsSinceLastGPS := Fin 0, dr_currentConfidence := Fin 1\<rparr>"

record SensorFusionManager =
  deadReckoning :: DeadReckoning

section \<open>src/services/RunTracker.js\<close>

subsection \<open>Data\<close>

text \<open>
  Modelled from the spec: the constant \<open>ACTIVITY_TYPES\<close> of \<open>RunDataService\<close> is not among
  the sources; the spec names the activity types run, walk and cycle. \<open>OTHER\<close> is any other
  string read from the local storage.
\<close>

datatype activity = RUN | WALK | CYCLE | OTHER string

text \<open>
  A position as the location watcher delivers it: every field may be missing (\<open>None\<close> is
  \<open>null\<close> or \<open>undefined\<close>), at the top level or under \<open>coords\<close>.
\<close>

record coords_in =
  ci_latitude :: "jsnum option"
  ci_longitude :: "jsnum option"
  ci_accuracy :: "jsnum option"
  ci_altitude :: "jsnum option"

record raw_position =
  rp_latitude :: "jsnum option"
  rp_longitude :: "jsnum option"
  rp_accuracy :: "jsnum option"
  rp_altitude :: "jsnum option"
  rp_timestamp :: "jsnum option"
  rp_coords :: "coords_in option"

text \<open>The shape \<open>standardise\<close> returns: a timestamp and a \<open>coords\<close> object.\<close>

record coords =
  latitude :: jsnum
  longitude :: jsnum
  accuracy :: jsnum
  altitude :: "jsnum option"

record std_position =
  timestamp :: jsnum
  coords :: coords

text \<open>
  An entry of \<open>this.positions\<close>: \<open>{latitude, longitude, altitude, accuracy, timestamp, coords}\<close>,
  where \<open>coords\<close> holds the same four values again.
\<close>

record stored_position =
  sp_latitude :: jsnum
  sp_longitude :: jsnum
  sp_altitude :: "jsnum option"
  sp_accuracy :: jsnum
  sp_timestamp :: jsnum

record split =
  s_km :: jsnum
  s_time :: jsnum
  s_pace :: jsnum
  s_isPartial :: bool

record elevation_state =
  el_current :: "jsnum option"
  el_gain :: jsnum
  el_loss :: jsnum
  el_lastAltitude :: "jsnum option"

text \<open>The notifications \<open>this.emit(name, payload)\<close> sends, in order.\<close>

datatype event =
    DurationChange jsnum
  | DistanceChange jsnum
  | GoalReached jsnum jsnum
  | StepsChange jsnum
  | ElevationChange elevation_state
  | SplitRecorded "split list"
  | StatusChange bool bool

text \<open>
  The fields of the tracker that position ingestion, the sampling computation and
  \<open>start\<close>/\<open>pause\<close>/\<open>resume\<close> read or write. The watcher id, the timer handles and
  \<open>currentSpeed\<close> are left out. \<open>pausedTime\<close> and \<open>lastPauseTime\<close> only ever hold \<open>0\<close>,
  \<open>Date.now()\<close> or sums and differences of such values, hence reals.
\<close>

record RunTracker =
  distance :: jsnum
  duration :: jsnum
  pace :: jsnum
  estimatedSteps :: jsnum
  splits :: "split list"
  positions :: "stored_position list"
  distanceGoal :: "jsnum option"
  strideLength :: jsnum
  elevation :: elevation_state
  isTracking :: bool
  isPaused :: bool
  startTime :: jsnum
  pausedTime :: real
  lastPauseTime :: real
  lastSplitDistance :: jsnum
  activityType :: activity
  smoothedSpeedMps :: jsnum
  latFilter :: KalmanFilter1D
  lonFilter :: KalmanFilter1D
  altFilter :: KalmanFilter1D
  weightedFilter :: WeightedGPSFilter
  gpsFilteringMode :: string
  sensorFusion :: SensorFusionManager
  lastGPSTime :: jsnum
  gpsGapFiller :: GPSGapFiller

text \<open>
  What a call reads from outside the tracker: the clock (one reading of \<open>Date.now()\<close> for
  the whole call), the local storage, the battery API, the visibility of the document, and
  \<open>filterLocation\<close> of \<open>utils/runCalculations\<close>, which is not among the sources and is
  taken as a parameter.
\<close>

datatype battery_api = NoBatteryApi | BatteryRejects | BatteryLevel jsnum

record env =
  date_now :: real
  localStorage_distanceUnit :: "string option"
  localStorage_activityMode :: "activity option"
  localStorage_gpsFilteringMode :: "string option"
  navigator_getBattery :: battery_api
  document_hidden :: "bool option"
  filterLocation :: "std_position \<Rightarrow> std_position \<Rightarrow> bool"

definition getDistanceUnit :: "env \<Rightarrow> string" where
  "getDistanceUnit e =
     (case localStorage_distanceUnit e of Some u \<Rightarrow> if u = [] then ''km'' else u | None \<Rightarrow> ''km'')"

definition AVERAGE_STRIDE_LENGTH_METERS :: jsnum where
  "AVERAGE_STRIDE_LENGTH_METERS = Fin (62 / 100)"

definition empty_elevation :: elevation_state where
  "empty_elevation = \<lparr> el_current = None, el_gain = Fin 0, el_loss = Fin 0, el_lastAltitude = None \<rparr>"

text \<open>The constructor.\<close>

definition new_RunTracker :: "env \<Rightarrow> RunTracker" where
  "new_RunTracker e =
     \<lparr> distance = Fin 0, duration = Fin 0, pace = Fin 0, estimatedSteps = Fin 0, splits = [],
       positions = [], distanceGoal = None, strideLength = AVERAGE_STRIDE_LENGTH_METERS,
       elevation = empty_elevation, isTracking = False, isPaused = False, startTime = Fin 0,
       pausedTime = 0, lastPauseTime = 0, lastSplitDistance = Fin 0,
       activityType = (case localStorage_activityMode e of Some a \<Rightarrow> a | None \<Rightarrow> RUN),
       smoothedSpeedMps = Fin 0,
       latFilter = new_KalmanFilter1D (Some (Fin 3)) (Some (Fin (1 / 100))),
       lonFilter = new_KalmanFilter1D (Some (Fin 3)) (Some (Fin (1 / 100))),
       altFilter = new_KalmanFilter1D (Some (Fin 1)) (Some (Fin (5 / 100))),
       weightedFilter = new_WeightedGPSFilter 5,
       gpsFilteringMode =
         (case localStorage_gpsFilteringMode e of Some m \<Rightarrow> if m = [] then ''kalman'' else m
          | None \<Rightarrow> ''kalman''),
       sensorFusion = \<lparr> deadReckoning = new_DeadReckoning \<rparr>,
       lastGPSTime = Fin 0, gpsGapFiller = new_GPSGapFiller \<rparr>"

subsection \<open>Distance and elevation\<close>

definition toRadians :: "jsnum \<Rightarrow> jsnum" where
  "toRadians degrees = (degrees * Math_PI) / Fin 180"

definition calculateDistance :: "jsnum \<Rightarrow> jsnum \<Rightarrow> jsnum \<Rightarrow> jsnum \<Rightarrow> jsnum" where
  "calculateDistance lat1 lon1 lat2 lon2 =
     (let R = Fin 6371000;
          dLat = toRadians (lat2 - lat1);
          dLon = toRadians (lon2 - lon1);
          a = Math_sin (dLat / Fin 2) * Math_sin (dLat / Fin 2)
              + Math_cos (toRadians lat1) * Math_cos (toRadians lat2)
                * Math_sin (dLon / Fin 2) * Math_sin (dLon / Fin 2);
          c = Fin 2 * Math_atan2 (Math_sqrt a) (Math_sqrt (Fin 1 - a))
      in R * c)"

definition updateElevation :: "jsnum option \<Rightarrow> RunTracker \<Rightarrow> RunTracker \<times> event list" where
  "updateElevation alt s =
     (case alt of
        None \<Rightarrow> (s, [])
      | Some v \<Rightarrow>
          if isNaN v then (s, [])
          else
            let el1 = (elevation s)\<lparr>el_current := Some v\<rparr>;
                el2 = (case el_lastAltitude el1 of
                         None \<Rightarrow> el1
                       | Some lastAlt \<Rightarrow>
                           let diff = v - lastAlt in
                           if Math_abs diff \<ge> Fin 1 then
                             (if diff > Fin 0 then el1\<lparr>el_gain := el_gain el1 + diff\<rparr>
                              else el1\<lparr>el_loss := el_loss el1 + Math_abs diff\<rparr>)
                           else el1);
                el3 = el2\<lparr>el_lastAltitude := Some v\<rparr>
            in (s\<lparr>elevation := el3\<rparr>, [ElevationChange el3]))"

subsection \<open>addPosition\<close>

text \<open>\<open>newPosition.accuracy ?? newPosition.coords?.accuracy ?? 999\<close>.\<close>

definition positionAccuracy :: "raw_position \<Rightarrow> jsnum" where
  "positionAccuracy pos =
     (case rp_accuracy pos of
        Some v \<Rightarrow> v
      | None \<Rightarrow> (case Option.bind (rp_coords pos) ci_accuracy of Some v \<Rightarrow> v | None \<Rightarrow> Fin 999))"

definition standardise :: "real \<Rightarrow> raw_position \<Rightarrow> std_position" where
  "standardise now pos =
     \<lparr> timestamp = (case rp_timestamp pos of
                       Some t \<Rightarrow> if truthy t then t else Fin now
                     | None \<Rightarrow> Fin now),
       coords =
         \<lparr> latitude = (case rp_latitude pos of
                          Some v \<Rightarrow> v
                        | None \<Rightarrow> (case Option.bind (rp_coords pos) ci_latitude of
                                     Some v \<Rightarrow> v | None \<Rightarrow> Fin 0)),
           longitude = (case rp_longitude pos of
                           Some v \<Rightarrow> v
                         | None \<Rightarrow> (case Option.bind (rp_coords pos) ci_longitude of
                                      Some v \<Rightarrow> v | None \<Rightarrow> Fin 0)),
           accuracy = (case rp_accuracy pos of
                          Some v \<Rightarrow> v
                        | None \<Rightarrow> (case Option.bind (rp_coords pos) ci_accuracy of
                                     Some v \<Rightarrow> v | None \<Rightarrow> Fin 0)),
           altitude = (case rp_altitude pos of
                          Some v \<Rightarrow> Some v
                        | None \<Rightarrow> Option.bind (rp_coords pos) ci_altitude) \<rparr> \<rparr>"

text \<open>The coordinate check of lines 268 to 271.\<close>

definition invalidCoordinates :: "jsnum \<Rightarrow> jsnum \<Rightarrow> bool" where
  "invalidCoordinates lat lon =
     (isNaN lat \<or> isNaN lon \<or> lat < Fin (- 90) \<or> lat > Fin 90 \<or> lon < Fin (- 180) \<or> lon > Fin 180)"

text \<open>
  The filtering of lines 273 to 332: the tracker with its filters updated, and
  \<open>filteredPosition\<close>.
\<close>

definition applyGpsFilter :: "jsnum \<Rightarrow> std_position \<Rightarrow> RunTracker \<Rightarrow> RunTracker \<times> std_position" where
  "applyGpsFilter acc cur s =
     (let lat = latitude (coords cur); lon = longitude (coords cur) in
      if gpsFilteringMode s = ''kalman'' then
        let q = (if activityType s = WALK then Fin (1 / 2)
                 else if activityType s = CYCLE then Fin 5 else Fin 3);
            latF = kf_filter lat ((adjustParameters acc (latFilter s))\<lparr>kf_Q := q\<rparr>);
            lonF = kf_filter lon ((adjustParameters acc (lonFilter s))\<lparr>kf_Q := q\<rparr>);
            altF = (case altitude (coords cur) of
                      Some v \<Rightarrow> (case kf_filter v (altFilter s) of (f, r) \<Rightarrow> (f, Some r))
                    | None \<Rightarrow> (altFilter s, None))
        in (s\<lparr>latFilter := fst latF, lonFilter := fst lonF, altFilter := fst altF\<rparr>,
            cur\<lparr>coords := (coords cur)\<lparr>latitude := snd latF, longitude := snd lonF,
                                         altitude := snd altF\<rparr>\<rparr>)
      else if gpsFilteringMode s = ''weighted'' then
        let res = addReading \<lparr> r_lat = lat, r_lon = lon, r_accuracy = acc,
                                r_timestamp = timestamp cur \<rparr> (weightedFilter s)
        in (s\<lparr>weightedFilter := fst res\<rparr>,
            case snd res of
              Some w \<Rightarrow> cur\<lparr>coords := (coords cur)\<lparr>latitude := w_lat w, longitude := w_lon w,
                                                     accuracy := w_accuracy w\<rparr>\<rparr>
            | None \<Rightarrow> cur)
      else (s, cur))"

text \<open>\<open>if (this.distanceGoal && this.distance >= this.distanceGoal)\<close>.\<close>

definition goalReached :: "RunTracker \<Rightarrow> jsnum option" where
  "goalReached s =
     (case distanceGoal s of
        Some g \<Rightarrow> if truthy g \<and> distance s \<ge> g then Some g else None
      | None \<Rightarrow> None)"

text \<open>
  Lines 357 to 378, given \<open>distanceIncrement\<close>: the tracker, the events, and whether the
  goal branch returned from \<open>addPosition\<close>.
\<close>

definition accumulateDistance :: "jsnum \<Rightarrow> RunTracker \<Rightarrow> RunTracker \<times> event list \<times> bool" where
  "accumulateDistance distanceIncrement s =
     (if distanceIncrement \<ge> Fin (1 / 2) then
        let s1 = s\<lparr>distance := distance s + distanceIncrement\<rparr>;
            ev = [DistanceChange (distance s1)]
        in case goalReached s1 of
             Some g \<Rightarrow> (s1, ev @ [GoalReached (distance s1) g], True)
           | None \<Rightarrow>
               if activityType s1 = WALK then
                 let s2 = s1\<lparr>estimatedSteps :=
                              (if distance s1 > Fin 0 then Math_round (distance s1 / strideLength s1)
                               else Fin 0)\<rparr>
                 in (s2, ev @ [StepsChange (estimatedSteps s2)], False)
               else (s1, ev, False)
      else (s, [], False))"

text \<open>Lines 380 to 383.\<close>

definition elevationStep :: "std_position \<Rightarrow> RunTracker \<Rightarrow> RunTracker \<times> event list" where
  "elevationStep fp s =
     (case altitude (coords fp) of Some v \<Rightarrow> updateElevation (Some v) s | None \<Rightarrow> (s, []))"

text \<open>
  Lines 385 to 434: the split evaluation. Each quotient, difference and product is rounded
  to a double, and the mile is the double that the literal \<open>1609.344\<close> denotes: whether
  \<open>Math.floor(lastSplitDistance / 1609.344)\<close> gives back the unit number that was
  multiplied by \<open>1609.344\<close> depends on it.
\<close>

definition splitStep :: "env \<Rightarrow> RunTracker \<Rightarrow> RunTracker \<times> event list" where
  "splitStep e s =
     (let distanceUnit = getDistanceUnit e;
          splitDistance = (if distanceUnit = ''km'' then Fin 1000
                           else double (Fin (1609344 / 1000)));
          currentDistanceInUnits =
            (if distanceUnit = ''km'' then double (distance s / Fin 1000)
             else double (distance s / double (Fin (1609344 / 1000))));
          lastSplitDistanceInUnits =
            (if distanceUnit = ''km'' then double (lastSplitDistance s / Fin 1000)
             else double (lastSplitDistance s / double (Fin (1609344 / 1000))))
      in if Math_floor currentDistanceInUnits > Math_floor lastSplitDistanceInUnits then
           let currentSplitNumber = Math_floor currentDistanceInUnits;
               previousSplitTime = (if splits s \<noteq> [] then s_time (last (splits s)) else Fin 0);
               splitDuration = double (duration s - previousSplitTime);
               splitPace = double (splitDuration / splitDistance);
               splits' = splits s @ [\<lparr> s_km = currentSplitNumber, s_time = duration s,
                                        s_pace = splitPace, s_isPartial = False \<rparr>]
           in (s\<lparr>splits := splits',
                 lastSplitDistance := double (currentSplitNumber * splitDistance)\<rparr>,
               [SplitRecorded splits'])
         else (s, []))"

text \<open>Lines 437 to 462: the fix is stored and handed to the sensor fusion and the gap filler.\<close>

definition storePosition :: "env \<Rightarrow> std_position \<Rightarrow> RunTracker \<Rightarrow> RunTracker" where
  "storePosition e fp s =
     s\<lparr>positions := positions s @
          [\<lparr> sp_latitude = latitude (coords fp), sp_longitude = longitude (coords fp),
             sp_altitude = altitude (coords fp), sp_accuracy = accuracy (coords fp),
             sp_timestamp = timestamp fp \<rparr>],
       sensorFusion := (sensorFusion s)\<lparr>deadReckoning :=
          updateGPSPosition (date_now e) (latitude (coords fp)) (longitude (coords fp)) Null
            (deadReckoning (sensorFusion s))\<rparr>,
       gpsGapFiller := fst (processPosition (date_now e)
          (Some \<lparr> gp_lat = Some (latitude (coords fp)), gp_lon = Some (longitude (coords fp)),
                  gp_timestamp = Some (timestamp fp), gp_accuracy = Some (accuracy (coords fp)),
                  gp_speed = None, gp_heading = None, gp_coords_latitude = None,
                  gp_coords_longitude = None, gp_isPredicted = False \<rparr>)
          (gpsGapFiller s)),
       lastGPSTime := timestamp fp\<rparr>"

text \<open>A stored position read back as an argument of \<open>standardise\<close>.\<close>

definition raw_of_stored :: "stored_position \<Rightarrow> raw_position" where
  "raw_of_stored p =
     \<lparr> rp_latitude = Some (sp_latitude p), rp_longitude = Some (sp_longitude p),
       rp_accuracy = Some (sp_accuracy p), rp_altitude = sp_altitude p,
       rp_timestamp = Some (sp_timestamp p),
       rp_coords = Some \<lparr> ci_latitude = Some (sp_latitude p), ci_longitude = Some (sp_longitude p),
                           ci_accuracy = Some (sp_accuracy p), ci_altitude = sp_altitude p \<rparr> \<rparr>"

text \<open>
  Lines 339 to 435, for a tracker with a previous position: the quality filter, the
  distance, the elevation and the splits. The flag says whether the fix goes on to be
  stored: \<open>False\<close> where the source returns early.
\<close>

definition processMovement :: "env \<Rightarrow> std_position \<Rightarrow> RunTracker \<Rightarrow> RunTracker \<times> event list \<times> bool" where
  "processMovement e fp s =
     (let lastRawPosition = last (positions s);
          lastPositionStd = standardise (date_now e) (raw_of_stored lastRawPosition)
      in if \<not> filterLocation e fp lastPositionStd then (s, [], False)
         else
           let distanceIncrement =
                 calculateDistance (sp_latitude lastRawPosition) (sp_longitude lastRawPosition)
                   (latitude (coords fp)) (longitude (coords fp))
           in case accumulateDistance distanceIncrement s of
                (s1, ev1, goal) \<Rightarrow>
                  if goal then (s1, ev1, False)
                  else case elevationStep fp s1 of
                    (s2, ev2) \<Rightarrow>
                      (case splitStep e s2 of
                         (s3, ev3) \<Rightarrow> (s3, ev1 @ ev2 @ ev3, True)))"

definition addPosition :: "env \<Rightarrow> raw_position \<Rightarrow> RunTracker \<Rightarrow> RunTracker \<times> event list" where
  "addPosition e newPosition s =
     (if \<not> isTracking s \<or> isPaused s then (s, [])
      else
        let acc = positionAccuracy newPosition in
        if acc > Fin 20 then (s, [])
        else
          let currentPositionStd = standardise (date_now e) newPosition;
              lat = latitude (coords currentPositionStd);
              lon = longitude (coords currentPositionStd)
          in if invalidCoordinates lat lon then (s, [])
             else case applyGpsFilter acc currentPositionStd s of
               (s1, filteredPosition) \<Rightarrow>
                 let s2 = s1\<lparr>duration :=
                            (timestamp filteredPosition - startTime s1 - Fin (pausedTime s1))
                              / Fin 1000\<rparr>;
                     ev = [DurationChange (duration s2)]
                 in if positions s2 \<noteq> [] then
                      (case processMovement e filteredPosition s2 of
                         (s3, ev3, store) \<Rightarrow>
                           if store then (storePosition e filteredPosition s3, ev @ ev3)
                           else (s3, ev @ ev3))
                    else (storePosition e filteredPosition s2, ev))"

subsection \<open>Adaptive sampling\<close>

text \<open>
  The body of the loop of \<open>calculateCurrentSpeed\<close>, on \<open>(recentDistance, lastValidPosition)\<close>.
\<close>

definition segment :: "jsnum \<times> stored_position option \<Rightarrow> stored_position \<Rightarrow> jsnum \<times> stored_position option" where
  "segment acc position =
     (case acc of (recentDistance, lastValidPosition) \<Rightarrow>
        (case lastValidPosition of
           None \<Rightarrow> (recentDistance, Some position)
         | Some lastValid \<Rightarrow>
             let segmentDistance =
                   calculateDistance (sp_latitude lastValid) (sp_longitude lastValid)
                     (sp_latitude position) (sp_longitude position);
                 timeDiff = (sp_timestamp position - sp_timestamp lastValid) / Fin 1000
             in ((if timeDiff > Fin 0 then recentDistance + segmentDistance else recentDistance),
                 Some position)))"

definition totalAverageSpeed :: "RunTracker \<Rightarrow> jsnum" where
  "totalAverageSpeed s =
     (if distance s > Fin 0 \<and> duration s > Fin 0 then distance s / duration s else Fin 0)"

definition calculateCurrentSpeed :: "RunTracker \<Rightarrow> jsnum" where
  "calculateCurrentSpeed s =
     (if length (positions s) < 2 then Fin 0
      else
        let windowStart = sp_timestamp (last (positions s)) - Fin 10 * Fin 1000;
            recentPositions = filter (\<lambda>pos. sp_timestamp pos \<ge> windowStart) (positions s)
        in if length recentPositions < 2 then totalAverageSpeed s
           else
             let recentDistance = fst (foldl segment (Fin 0, None) recentPositions);
                 recentDuration =
                   (sp_timestamp (last recentPositions) - sp_timestamp (hd recentPositions))
                     / Fin 1000
             in if recentDuration > Fin 0 \<and> recentDistance > Fin 0
                then recentDistance / recentDuration
                else totalAverageSpeed s)"

text \<open>
  What \<open>getBatteryLevel\<close> returns: \<open>null\<close>, or the promise of \<open>navigator.getBattery()\<close>,
  which resolves to the rounded percentage, or to \<open>null\<close> when the request is rejected.
  No caller awaits it. \<open>JsNumber\<close> is the value a resolved level would be.
\<close>

datatype js_value = JsNull | JsNumber jsnum | JsPromise "jsnum option"

definition getBatteryLevel :: "env \<Rightarrow> js_value" where
  "getBatteryLevel e =
     (case navigator_getBattery e of
        NoBatteryApi \<Rightarrow> JsNull
      | BatteryRejects \<Rightarrow> JsPromise None
      | BatteryLevel l \<Rightarrow> JsPromise (Some (Math_round (l * Fin 100))))"

text \<open>
  \<open>v < n\<close> for a value and a number: \<open>null\<close> converts to \<open>0\<close>, a promise object to \<open>NaN\<close>.
\<close>

fun value_less :: "js_value \<Rightarrow> jsnum \<Rightarrow> bool" where
  "value_less JsNull n = (Fin 0 < n)"
| "value_less (JsNumber v) n = (v < n)"
| "value_less (JsPromise r) n = False"

text \<open>Lines 675 to 683, given the value of \<open>batteryLevel\<close>.\<close>

definition batteryAdjusted :: "js_value \<Rightarrow> jsnum \<Rightarrow> jsnum" where
  "batteryAdjusted batteryLevel baseInterval =
     (if batteryLevel \<noteq> JsNull \<and> value_less batteryLevel (Fin 30) then baseInterval * Fin (3 / 2)
      else if batteryLevel \<noteq> JsNull \<and> value_less batteryLevel (Fin 15) then baseInterval * Fin 2
      else baseInterval)"

text \<open>Lines 652 to 673: the base interval of the activity, adjusted by the speed.\<close>

definition speedAdjusted :: "RunTracker \<Rightarrow> jsnum" where
  "speedAdjusted s =
     (let baseInterval = (if activityType s = WALK then Fin 15000
                          else if activityType s = CYCLE then Fin 5000 else Fin 10000);
          speedMps = calculateCurrentSpeed s
      in if speedMps > Fin 15 then Math_min baseInterval (Fin 5000)
         else if speedMps > Fin 8 then Math_min baseInterval (Fin 10000)
         else if speedMps < Fin (1 / 2) then Math_max baseInterval (Fin 30000)
         else baseInterval)"

definition calculateOptimalSamplingInterval :: "env \<Rightarrow> RunTracker \<Rightarrow> jsnum" where
  "calculateOptimalSamplingInterval e s =
     (let b1 = batteryAdjusted (getBatteryLevel e) (speedAdjusted s);
          b2 = (case distanceGoal s of
                  Some g \<Rightarrow>
                    if truthy g then
                      (let remainingDistance = g - distance s in
                       if remainingDistance < Fin 1000 then Math_min b1 (Fin 5000) else b1)
                    else b1
                | None \<Rightarrow> b1);
          b3 = (if document_hidden e = Some True then Math_max b2 (Fin 30000) else b2)
      in Math_max (Fin 3000) (Math_min (Fin 60000) b3))"

subsection \<open>start, pause, resume\<close>

text \<open>
  The state changes of \<open>start\<close>, \<open>pause\<close> and \<open>resume\<close>, with \<open>Date.now()\<close> read from the
  environment; the location watcher, the timers, the wake lock and the asynchronous
  start of the sensor fusion are outside the state.
\<close>

definition start :: "env \<Rightarrow> RunTracker \<Rightarrow> RunTracker \<times> event list" where
  "start e s =
     (if isTracking s \<and> \<not> isPaused s then (s, [])
      else
        (s\<lparr>activityType := (case localStorage_activityMode e of Some a \<Rightarrow> a | None \<Rightarrow> RUN),
           isTracking := True, isPaused := False, startTime := Fin (date_now e), pausedTime := 0,
           positions := [], distance := Fin 0, duration := Fin 0, pace := Fin 0,
           estimatedSteps := Fin 0, splits := [], lastSplitDistance := Fin 0,
           smoothedSpeedMps := Fin 0, elevation := empty_elevation,
           latFilter := kf_reset (latFilter s), lonFilter := kf_reset (lonFilter s),
           altFilter := kf_reset (altFilter s), weightedFilter := wf_reset (weightedFilter s),
           gpsGapFiller := gap_reset (gpsGapFiller s)\<rparr>,
         [StatusChange True False]))"

definition pause :: "env \<Rightarrow> RunTracker \<Rightarrow> RunTracker \<times> event list" where
  "pause e s =
     (if \<not> isTracking s \<or> isPaused s then (s, [])
      else (s\<lparr>isPaused := True, lastPauseTime := date_now e\<rparr>, [StatusChange (isTracking s) True]))"

definition resume :: "env \<Rightarrow> RunTracker \<Rightarrow> RunTracker \<times> event list" where
  "resume e s =
     (if \<not> isTracking s \<or> \<not> isPaused s then (s, [])
      else (s\<lparr>isPaused := False, pausedTime := pausedTime s + (date_now e - lastPauseTime s)\<rparr>,
            [StatusChange (isTracking s) False]))"

definition setDistanceGoal :: "jsnum option \<Rightarrow> RunTracker \<Rightarrow> RunTracker" where
  "setDistanceGoal meters s =
     s\<lparr>distanceGoal := (case meters of
                          Some m \<Rightarrow> if truthy m \<and> m > Fin 0 then Some m else None
                        | None \<Rightarrow> None)\<rparr>"

subsection \<open>Sequences of fixes\<close>

text \<open>The location watcher calls \<open>addPosition\<close> once per fix, in the order of delivery.\<close>

fun ingest :: "(env \<times> raw_position) list \<Rightarrow> RunTracker \<Rightarrow> RunTracker" where
  "ingest [] s = s"
| "ingest (ep # eps) s = ingest eps (fst (addPosition (fst ep) (snd ep) s))"

section \<open>A concrete session\<close>

text \<open>
  An environment with the default settings (kilometres, running, Kalman filtering, no
  battery API, a visible document, a quality filter that accepts) at clock reading \<open>t\<close>;
  a fix as the watcher delivers it, with top-level coordinates and accuracy; a session
  started at time \<open>0\<close>, and the same with a goal of one kilometre. Further down: a session
  after a first fix at the equator at 1 s, and a second fix 0.016 degrees to the north.
\<close>

definition env_at :: "real \<Rightarrow> env" where
  "env_at t =
     \<lparr> date_now = t, localStorage_distanceUnit = None, localStorage_activityMode = None,
       localStorage_gpsFilteringMode = None, navigator_getBattery = NoBatteryApi,
       document_hidden = Some False, filterLocation = (\<lambda>p q. True) \<rparr>"

definition fix_at :: "real \<Rightarrow> real \<Rightarrow> real \<Rightarrow> raw_position" where
  "fix_at lat lon acc =
     \<lparr> rp_latitude = Some (Fin lat), rp_longitude = Some (Fin lon), rp_accuracy = Some (Fin acc),
       rp_altitude = None, rp_timestamp = None, rp_coords = None \<rparr>"

definition started_session :: RunTracker where
  "started_session = fst (start (env_at 0) (new_RunTracker (env_at 0)))"

definition goal_session :: RunTracker where
  "goal_session = setDistanceGoal (Some (Fin 1000)) started_session"

definition low_battery_env :: env where
  "low_battery_env = (env_at 0)\<lparr>navigator_getBattery := BatteryLevel (Fin (1 / 10))\<rparr>"

definition unit_filter :: KalmanFilter1D where
  "unit_filter = \<lparr> kf_Q = Fin 3, kf_R = Fin 1, kf_x = Some (Fin 0), kf_P = Fin 1, kf_K = Fin 0 \<rparr>"

definition zero_accuracy_reading :: reading where
  "zero_accuracy_reading =
     \<lparr> r_lat = Fin 37, r_lon = Fin (- 122), r_accuracy = Fin 0, r_timestamp = Fin 1000 \<rparr>"

definition after_first_fix :: "RunTracker \<Rightarrow> RunTracker" where
  "after_first_fix s = fst (addPosition (env_at 1000) (fix_at 0 0 5) s)"

definition second_fix :: raw_position where
  "second_fix = fix_at (16 / 1000) 0 5"

text \<open>
  A session in miles: the setting \<open>distanceUnit\<close> holds \<open>mi\<close>. The tracker has covered
  11265 m, 0.4 m short of seven miles, and holds the six splits and the \<open>lastSplitDistance\<close>
  that the split evaluation stored at mile six. A fix 1.7e-5 degrees to the north takes it
  into the eighth mile; the next fix, 4e-5 degrees north of the start, arrives a second
  later.
\<close>

definition mile_env :: "real \<Rightarrow> env" where
  "mile_env t = (env_at t)\<lparr>localStorage_distanceUnit := Some ''mi''\<rparr>"

definition six_splits :: "split list" where
  "six_splits =
     map (\<lambda>k. \<lparr> s_km = Fin k, s_time = Fin (600 * k),
                 s_pace = double (Fin 600 / double (Fin (1609344 / 1000))), s_isPartial = False \<rparr>)
       [1, 2, 3, 4, 5, 6]"

definition six_mile_session :: RunTracker where
  "six_mile_session =
     (after_first_fix started_session)
       \<lparr>distance := Fin 11265, duration := Fin 3600, splits := six_splits,
        lastSplitDistance := double (Fin 6 * double (Fin (1609344 / 1000)))\<rparr>"

definition seventh_mile_session :: RunTracker where
  "seventh_mile_session =
     fst (addPosition (mile_env 3601000) (fix_at (17 / 1000000) 0 5) six_mile_session)"

definition next_fix :: raw_position where
  "next_fix = fix_at (40 / 1000000) 0 5"

text \<open>
  A gap filler that received three fixes one second apart and then, at 13 s, a call
  without a position.
\<close>

definition gap_fix :: "real \<Rightarrow> real \<Rightarrow> real \<Rightarrow> gap_position" where
  "gap_fix t lat lon =
     \<lparr> gp_lat = Some (Fin lat), gp_lon = Some (Fin lon), gp_timestamp = Some (Fin t),
       gp_accuracy = Some (Fin 5), gp_speed = None, gp_heading = None,
       gp_coords_latitude = None, gp_coords_longitude = None, gp_isPredicted = False \<rparr>"

definition gap_session :: GPSGapFiller where
  "gap_session =
     gap_run [(1000, Some (gap_fix 1000 37 (- 122))),
              (2000, Some (gap_fix 2000 (370001 / 10000) (- 122))),
              (3000, Some (gap_fix 3000 (370002 / 10000) (- 122))), (13000, None)]
       new_GPSGapFiller"

section \<open>Properties\<close>

subsection \<open>Numbers\<close>

lemma Math_max_Fin: "Math_max (Fin a) (Fin b) = Fin (max a b)"
  by (simp add: max_def)

lemma Math_min_Fin: "Math_min (Fin a) (Fin b) = Fin (min a b)"
  by (simp add: min_def)

subsection \<open>The Kalman filter\<close>

text \<open>
  C3. The first \<open>filter(m)\<close> after \<open>reset()\<close> or after construction stores \<open>m\<close>, returns
  \<open>m\<close> and leaves \<open>P\<close> at \<open>1\<close>. A call on a filter that holds a state \<open>x\<close> computes
  \<open>P_pred = P + Q\<close>, \<open>K = P_pred / (P_pred + R)\<close>, \<open>x' = x + K (m - x)\<close>,
  \<open>P = (1 - K) P_pred\<close> and returns \<open>x'\<close>, in the arithmetic of JavaScript numbers and,
  for finite numbers with \<open>P + Q + R \<noteq> 0\<close>, in that of the reals; after any call the
  filter holds a state, so this is every later call. \<open>adjustParameters(accuracy)\<close> sets
  \<open>R\<close> to \<open>max(0.001, accuracy / 20)\<close> and nothing else.
\<close>

theorem kalman_filter_steps:
  "kf_filter m (kf_reset f) = ((kf_reset f)\<lparr>kf_x := Some m\<rparr>, m)
   \<and> kf_P (fst (kf_filter m (kf_reset f))) = Fin 1
   \<and> kf_filter m (new_KalmanFilter1D oq orr) = ((new_KalmanFilter1D oq orr)\<lparr>kf_x := Some m\<rparr>, m)
   \<and> kf_P (fst (kf_filter m (new_KalmanFilter1D oq orr))) = Fin 1
   \<and> (\<forall>x. kf_x g = Some x \<longrightarrow>
         (let P_pred = kf_P g + kf_Q g;
              K = P_pred / (P_pred + kf_R g);
              x' = x + K * (m - x)
          in kf_filter m g = (g\<lparr>kf_K := K, kf_x := Some x', kf_P := (Fin 1 - K) * P_pred\<rparr>, x')))
   \<and> (\<forall>x p q r v. kf_x g = Some (Fin x) \<and> kf_P g = Fin p \<and> kf_Q g = Fin q \<and> kf_R g = Fin r
          \<and> p + q + r \<noteq> 0 \<longrightarrow>
         (let P_pred = p + q;
              K = P_pred / (P_pred + r);
              x' = x + K * (v - x)
          in kf_filter (Fin v) g
             = (g\<lparr>kf_K := Fin K, kf_x := Some (Fin x'), kf_P := Fin ((1 - K) * P_pred)\<rparr>, Fin x')))
   \<and> kf_x (fst (kf_filter m g)) \<noteq> None
   \<and> adjustParameters a g = g\<lparr>kf_R := Math_max (Fin (1 / 1000)) (a / Fin 20)\<rparr>
   \<and> kf_R (adjustParameters (Fin c) g) = Fin (max (1 / 1000) (c / 20))"
  by (simp add: kf_filter_def kf_reset_def new_KalmanFilter1D_def adjustParameters_def Let_def
      minus_jsnum_def max_def split: option.splits)

theorem kalman_filter_steps_witness:
  "kf_x unit_filter = Some (Fin 0)
   \<and> kf_filter (Fin 2) unit_filter
     = (\<lparr> kf_Q = Fin 3, kf_R = Fin 1, kf_x = Some (Fin (8 / 5)), kf_P = Fin (4 / 5),
          kf_K = Fin (4 / 5) \<rparr>, Fin (8 / 5))
   \<and> kf_R (adjustParameters (Fin 5) unit_filter) = Fin (1 / 4)"
  using kalman_filter_steps [of "Fin 2" unit_filter None None unit_filter "Fin 5" 5]
  by (simp add: unit_filter_def Let_def minus_jsnum_def)

subsection \<open>Accuracy zero\<close>

text \<open>For a reading of accuracy \<open>0\<close> the Kalman strategy clamps: \<open>R\<close> becomes \<open>0.001\<close>.\<close>

lemma adjustParameters_clamps:
  "kf_R (adjustParameters (Fin 0) f) = Fin (1 / 1000)"
  "\<exists>r. kf_R (adjustParameters (Fin a) f) = Fin r \<and> 1 / 1000 \<le> r"
  by (simp_all add: adjustParameters_def Math_max_Fin del: Math_max.simps)

lemma not_finite_divide: "(\<forall>a. x \<noteq> Fin a) \<Longrightarrow> (\<forall>b. y \<noteq> Fin b) \<Longrightarrow> x / y = NaN"
  by (cases x; cases y) simp_all

lemma plus_infinite_weight: "t + Fin 1 / (Fin 0 * Fin 0) \<noteq> Fin c"
  by (cases t) simp_all

lemma plus_infinite_product: "t + Fin a * (Fin 1 / (Fin 0 * Fin 0)) \<noteq> Fin c"
  by (cases t) simp_all

lemma weigh_zero_accuracy:
  assumes "r_accuracy r = Fin 0" and "r_lat r = Fin a" and "r_lon r = Fin b"
    and "weigh acc r = (totalWeight, weightedLat, weightedLon)"
  shows "weightedLat / totalWeight = NaN" and "weightedLon / totalWeight = NaN"
proof -
  obtain t x y where acc: "acc = (t, x, y)" by (cases acc)
  have t: "\<forall>c. totalWeight \<noteq> Fin c"
    using assms(4) plus_infinite_weight [of t]
    by (auto simp add: weigh_def acc assms(1) Let_def simp del: times_jsnum.simps divide_jsnum.simps)
  have x: "\<forall>c. weightedLat \<noteq> Fin c"
    using assms(4) plus_infinite_product [of x a]
    by (auto simp add: weigh_def acc assms(1,2) Let_def simp del: times_jsnum.simps divide_jsnum.simps)
  have y: "\<forall>c. weightedLon \<noteq> Fin c"
    using assms(4) plus_infinite_product [of y b]
    by (auto simp add: weigh_def acc assms(1,3) Let_def simp del: times_jsnum.simps divide_jsnum.simps)
  show "weightedLat / totalWeight = NaN" using x t by (rule not_finite_divide)
  show "weightedLon / totalWeight = NaN" using y t by (rule not_finite_divide)
qed

lemma addReading_window:
  assumes "1 \<le> windowSize w"
  shows "\<exists>ys. readings (fst (addReading r w)) = ys @ [r]"
proof (cases "windowSize w < length (readings w @ [r])")
  case True
  then have "readings w \<noteq> []" using assms by auto
  then have "tl (readings w @ [r]) = tl (readings w) @ [r]" by simp
  then show ?thesis using True by (simp add: addReading_def Let_def)
next
  case False
  then show ?thesis by (simp add: addReading_def Let_def)
qed

lemma zero_accuracy_mean:
  assumes "r_accuracy r = Fin 0" and "r_lat r = Fin a" and "r_lon r = Fin b"
    and "1 \<le> windowSize w"
  shows "\<exists>res. snd (addReading r w) = Some res \<and> w_lat res = NaN \<and> w_lon res = NaN"
proof -
  from addReading_window [OF assms(4), of r]
  obtain ys where ys: "readings (fst (addReading r w)) = ys @ [r]" by blast
  obtain tw wlat wlon where f: "weigh (foldl weigh (Fin 0, Fin 0, Fin 0) ys) r = (tw, wlat, wlon)"
    by (cases "weigh (foldl weigh (Fin 0, Fin 0, Fin 0) ys) r")
  note n = weigh_zero_accuracy [OF assms(1-3) f]
  have "snd (addReading r w) = getWeightedAverage (fst (addReading r w))"
    by (simp add: addReading_def Let_def)
  also have "\<dots> = Some \<lparr> w_lat = NaN, w_lon = NaN,
                          w_accuracy = getAverageAccuracy (fst (addReading r w)) \<rparr>"
    by (simp add: getWeightedAverage_def ys f n)
  finally show ?thesis by simp
qed

text \<open>
  C4. The weighted average does not clamp. A reading of accuracy \<open>0\<close> with finite
  coordinates gets the weight \<open>1 / (0 * 0) = Infinity\<close>; whatever the window held, the
  weighted sums and the total weight are then infinite or \<open>NaN\<close>, and the returned mean
  is \<open>NaN\<close> in both coordinates.
\<close>

theorem weighted_average_of_zero_accuracy:
  assumes "r_accuracy r = Fin 0" and "r_lat r = Fin a" and "r_lon r = Fin b"
    and "1 \<le> windowSize w"
  shows "\<exists>res. snd (addReading r w) = Some res \<and> w_lat res = NaN \<and> w_lon res = NaN"
  using assms by (rule zero_accuracy_mean)

theorem weighted_average_of_zero_accuracy_witness:
  "r_accuracy zero_accuracy_reading = Fin 0 \<and> 1 \<le> windowSize (new_WeightedGPSFilter 5)
   \<and> snd (addReading zero_accuracy_reading (new_WeightedGPSFilter 5))
       = Some \<lparr> w_lat = NaN, w_lon = NaN, w_accuracy = Fin 0 \<rparr>"
proof -
  have h: "r_accuracy zero_accuracy_reading = Fin 0" "r_lat zero_accuracy_reading = Fin 37"
    "r_lon zero_accuracy_reading = Fin (- 122)" "1 \<le> windowSize (new_WeightedGPSFilter 5)"
    by (simp_all add: zero_accuracy_reading_def new_WeightedGPSFilter_def)
  from weighted_average_of_zero_accuracy [OF h]
  obtain res where res: "snd (addReading zero_accuracy_reading (new_WeightedGPSFilter 5)) = Some res"
    "w_lat res = NaN" "w_lon res = NaN" by blast
  have "w_accuracy res = Fin 0"
    using res(1)
    by (auto simp add: addReading_def new_WeightedGPSFilter_def getWeightedAverage_def
        getAverageAccuracy_def zero_accuracy_reading_def Let_def split_def)
  then have "res = \<lparr> w_lat = NaN, w_lon = NaN, w_accuracy = Fin 0 \<rparr>"
    using res(2,3) by (cases res) simp
  then show ?thesis using res(1) h by simp
qed

text \<open>
  In the tracker: with the weighted mode selected, a fix of accuracy \<open>0\<close> (which passes the
  accuracy gate) comes out of the filtering with \<open>NaN\<close> coordinates.
\<close>

lemma weighted_mode_zero_accuracy:
  assumes "gpsFilteringMode s = ''weighted''" and "1 \<le> windowSize (weightedFilter s)"
    and "latitude (coords cur) = Fin a" and "longitude (coords cur) = Fin b"
  shows "latitude (coords (snd (applyGpsFilter (Fin 0) cur s))) = NaN"
    and "longitude (coords (snd (applyGpsFilter (Fin 0) cur s))) = NaN"
proof -
  let ?r = "\<lparr> r_lat = Fin a, r_lon = Fin b, r_accuracy = Fin 0, r_timestamp = timestamp cur \<rparr>"
  from zero_accuracy_mean [of ?r a b "weightedFilter s"] assms(2)
  obtain res where res: "snd (addReading ?r (weightedFilter s)) = Some res"
    "w_lat res = NaN" "w_lon res = NaN" by auto
  show "latitude (coords (snd (applyGpsFilter (Fin 0) cur s))) = NaN"
    "longitude (coords (snd (applyGpsFilter (Fin 0) cur s))) = NaN"
    using res by (simp_all add: applyGpsFilter_def assms(1,3,4) Let_def)
qed

subsection \<open>Rejected fixes\<close>

text \<open>
  C2. A fix whose accuracy exceeds 20 metres, or whose latitude or longitude is \<open>NaN\<close> or
  out of range, leaves the whole tracker as it was (distance, elevation, the three
  Kalman filters and the window of the weighted filter included) and emits nothing.
\<close>

theorem rejected_fix_changes_nothing:
  assumes "lat = latitude (coords (standardise (date_now e) p))"
      and "lon = longitude (coords (standardise (date_now e) p))"
      and "positionAccuracy p > Fin 20 \<or> isNaN lat \<or> isNaN lon
           \<or> lat < Fin (- 90) \<or> lat > Fin 90 \<or> lon < Fin (- 180) \<or> lon > Fin 180"
  shows "addPosition e p s = (s, [])"
  using assms by (auto simp add: addPosition_def invalidCoordinates_def Let_def)

theorem rejected_fix_changes_nothing_witness:
  "positionAccuracy (fix_at 0 0 25) > Fin 20
   \<and> latitude (coords (standardise 1000 (fix_at 91 0 5))) > Fin 90
   \<and> isNaN (longitude (coords (standardise 1000 ((fix_at 0 0 5)\<lparr>rp_longitude := Some NaN\<rparr>))))
   \<and> addPosition (env_at 1000) (fix_at 0 0 25) goal_session = (goal_session, [])
   \<and> addPosition (env_at 1000) (fix_at 91 0 5) goal_session = (goal_session, [])
   \<and> addPosition (env_at 1000) ((fix_at 0 0 5)\<lparr>rp_longitude := Some NaN\<rparr>) goal_session
       = (goal_session, [])"
  using rejected_fix_changes_nothing [of _ "env_at 1000" "fix_at 0 0 25" _ goal_session, OF refl refl]
    rejected_fix_changes_nothing [of _ "env_at 1000" "fix_at 91 0 5" _ goal_session, OF refl refl]
    rejected_fix_changes_nothing [of _ "env_at 1000" "(fix_at 0 0 5)\<lparr>rp_longitude := Some NaN\<rparr>" _
      goal_session, OF refl refl]
  by (simp add: positionAccuracy_def standardise_def fix_at_def env_at_def)

subsection \<open>The sampling interval\<close>

lemma speedAdjusted_cases:
  "speedAdjusted s \<in> {Fin 5000, Fin 10000, Fin 15000, Fin 30000}"
  by (simp add: speedAdjusted_def Let_def)

lemma batteryAdjusted_Fin:
  "batteryAdjusted v (Fin b) \<in> {Fin b, Fin (b * (3 / 2)), Fin (b * 2)}"
  by (simp add: batteryAdjusted_def)

text \<open>
  C6. Whatever the activity, the positions (hence the measured speed), the battery, the
  goal, the distance and the visibility, the interval is a number between 3000 and 60000.
\<close>

theorem sampling_interval_in_range:
  "\<exists>r. calculateOptimalSamplingInterval e s = Fin r \<and> 3000 \<le> r \<and> r \<le> 60000"
proof -
  obtain b0 where b0: "speedAdjusted s = Fin b0"
    using speedAdjusted_cases [of s] by auto
  obtain b1 where b1: "batteryAdjusted (getBatteryLevel e) (speedAdjusted s) = Fin b1"
    using batteryAdjusted_Fin [of "getBatteryLevel e" b0] b0 by auto
  define b2 where "b2 = (case distanceGoal s of
                  Some g \<Rightarrow>
                    if truthy g then
                      (let remainingDistance = g - distance s in
                       if remainingDistance < Fin 1000 then Math_min (Fin b1) (Fin 5000) else Fin b1)
                    else Fin b1
                | None \<Rightarrow> Fin b1)"
  have "\<exists>r2. b2 = Fin r2"
    by (simp add: b2_def Let_def Math_min_Fin split: option.splits)
  then obtain r2 where r2: "b2 = Fin r2" ..
  define b3 where "b3 = (if document_hidden e = Some True then Math_max b2 (Fin 30000) else b2)"
  have "\<exists>r3. b3 = Fin r3"
    by (simp add: b3_def r2 Math_max_Fin)
  then obtain r3 where r3: "b3 = Fin r3" ..
  have "calculateOptimalSamplingInterval e s = Math_max (Fin 3000) (Math_min (Fin 60000) b3)"
    by (simp add: calculateOptimalSamplingInterval_def b1 b2_def b3_def Let_def)
  then have "calculateOptimalSamplingInterval e s = Fin (max 3000 (min 60000 r3))"
    by (simp only: r3 Math_max_Fin Math_min_Fin)
  then show ?thesis by simp
qed

theorem sampling_interval_in_range_witness:
  "\<exists>r. calculateOptimalSamplingInterval low_battery_env goal_session = Fin r
        \<and> 3000 \<le> r \<and> r \<le> 60000"
  by (rule sampling_interval_in_range)

text \<open>
  C7. With the battery API present and the battery at 10 percent, \<open>getBatteryLevel\<close>
  returns a promise, both comparisons of the battery step are false, and the interval of
  a session without positions stays at the speed-adjusted 30000: it is neither multiplied
  by 1.5 nor by 2. Were the level the number 10, the first branch (\<open>< 30\<close>) would take it
  and multiply by 1.5: the branch for \<open>< 15\<close> cannot be reached.
\<close>

theorem battery_scaling_not_applied:
  "getBatteryLevel low_battery_env = JsPromise (Some (Fin 10))
   \<and> speedAdjusted started_session = Fin 30000
   \<and> calculateOptimalSamplingInterval low_battery_env started_session = Fin 30000
   \<and> batteryAdjusted (JsNumber (Fin 10)) (Fin 30000) = Fin 45000"
  by (simp add: calculateOptimalSamplingInterval_def low_battery_env_def env_at_def
      started_session_def start_def new_RunTracker_def speedAdjusted_def
      calculateCurrentSpeed_def batteryAdjusted_def getBatteryLevel_def Let_def)

lemma battery_step_is_identity: "batteryAdjusted (getBatteryLevel e) b = b"
  by (simp add: batteryAdjusted_def getBatteryLevel_def split: battery_api.splits)

lemma battery_step_on_numbers:
  "v < 30 \<Longrightarrow> batteryAdjusted (JsNumber (Fin v)) b = b * Fin (3 / 2)"
  by (simp add: batteryAdjusted_def)

subsection \<open>Pause and resume\<close>

lemma addPosition_inactive: "\<not> isTracking s \<or> isPaused s \<Longrightarrow> addPosition e p s = (s, [])"
  by (simp add: addPosition_def)

lemma ingest_paused: "isPaused s \<Longrightarrow> ingest ps s = s"
  by (induction ps) (simp_all add: addPosition_inactive)

text \<open>
  C9. From a session that is tracking and not paused, \<open>pause()\<close> at clock reading \<open>t1\<close>,
  any fixes delivered meanwhile, and \<open>resume()\<close> at \<open>t2\<close> leave the distance and the
  splits as they were and add exactly \<open>t2 - t1\<close> to the accumulated paused time.
\<close>

theorem pause_resume:
  assumes "isTracking s" and "\<not> isPaused s"
  shows "let s' = fst (resume e2 (ingest ps (fst (pause e1 s))))
         in distance s' = distance s \<and> splits s' = splits s
          \<and> pausedTime s' = pausedTime s + (date_now e2 - date_now e1)
          \<and> isTracking s' \<and> \<not> isPaused s'"
proof -
  have "isPaused (fst (pause e1 s))" using assms by (simp add: pause_def)
  then have "ingest ps (fst (pause e1 s)) = fst (pause e1 s)" by (rule ingest_paused)
  then show ?thesis using assms by (simp add: pause_def resume_def)
qed

lemma goal_session_active: "isTracking goal_session" "\<not> isPaused goal_session"
  by (simp_all add: goal_session_def setDistanceGoal_def started_session_def start_def
      new_RunTracker_def)

theorem pause_resume_witness:
  "isTracking goal_session \<and> \<not> isPaused goal_session
   \<and> pausedTime (fst (resume (env_at 9000)
        (ingest [(env_at 5000, fix_at 0 0 5)] (fst (pause (env_at 2000) goal_session)))))
       = pausedTime goal_session + 7000
   \<and> distance (fst (resume (env_at 9000)
        (ingest [(env_at 5000, fix_at 0 0 5)] (fst (pause (env_at 2000) goal_session)))))
       = distance goal_session"
  using pause_resume [OF goal_session_active, of "env_at 9000" "[(env_at 5000, fix_at 0 0 5)]"
      "env_at 2000"]
  by (simp add: Let_def goal_session_active env_at_def)

subsection \<open>The haversine distance along a meridian\<close>

lemma haversine_angle:
  fixes t :: real
  assumes "\<bar>t\<bar> < pi / 2"
  shows "atan2_real (sqrt (sin t * sin t)) (sqrt (1 - sin t * sin t)) = \<bar>t\<bar>"
proof -
  have c: "0 < cos t" using assms by (intro cos_gt_zero_pi) (auto simp: abs_less_iff)
  have "1 - sin t * sin t = cos t * cos t"
    using sin_cos_squared_add [of t] by (simp add: power2_eq_square algebra_simps)
  then have x: "sqrt (1 - sin t * sin t) = cos t" using c by simp
  have y: "sqrt (sin t * sin t) = \<bar>sin t\<bar>" by simp
  have s: "\<bar>sin t\<bar> = sin \<bar>t\<bar>"
  proof (cases "0 \<le> t")
    case True
    then have "0 \<le> sin t" using assms by (intro sin_ge_zero) auto
    then show ?thesis using True by simp
  next
    case False
    then have "0 \<le> sin (- t)" using assms by (intro sin_ge_zero) auto
    then show ?thesis using False by simp
  qed
  have "arctan (sin \<bar>t\<bar> / cos t) = arctan (tan \<bar>t\<bar>)"
    by (simp add: tan_def)
  also have "\<dots> = \<bar>t\<bar>" using assms by (intro arctan_tan) auto
  finally show ?thesis using c by (simp add: atan2_real_def x y s)
qed

lemma calculateDistance_meridian:
  assumes "\<bar>b - a\<bar> < 180"
  shows "calculateDistance (Fin a) (Fin l) (Fin b) (Fin l) = Fin (6371000 * (\<bar>b - a\<bar> * pi / 180))"
proof -
  define t where "t = (b - a) * pi / 180 / 2"
  have t: "\<bar>t\<bar> < pi / 2"
  proof -
    have "\<bar>t\<bar> = \<bar>b - a\<bar> * pi / 360" by (simp add: t_def abs_mult)
    also have "\<dots> < 180 * pi / 360" using assms by (simp add: divide_strict_right_mono)
    finally show ?thesis by simp
  qed
  have nonneg: "\<not> sin t * sin t < 0" by (simp add: not_less)
  have "1 - sin t * sin t = cos t * cos t"
    using sin_cos_squared_add [of t] by (simp add: power2_eq_square algebra_simps)
  then have le1: "\<not> 1 - sin t * sin t < 0" by (simp add: not_less)
  have "calculateDistance (Fin a) (Fin l) (Fin b) (Fin l)
        = Fin (6371000 * (2 * atan2_real (sqrt (sin t * sin t)) (sqrt (1 - sin t * sin t))))"
    using nonneg le1 by (simp add: calculateDistance_def toRadians_def Math_PI_def minus_jsnum_def t_def Let_def)
  also have "\<dots> = Fin (6371000 * (2 * \<bar>t\<bar>))" by (simp only: haversine_angle [OF t])
  also have "2 * \<bar>t\<bar> = \<bar>b - a\<bar> * pi / 180" by (simp add: t_def abs_mult)
  finally show ?thesis .
qed

subsection \<open>What the stages of addPosition leave alone\<close>

lemma applyGpsFilter_frame:
  "fst (applyGpsFilter a c s)
     = s\<lparr>latFilter := latFilter (fst (applyGpsFilter a c s)),
         lonFilter := lonFilter (fst (applyGpsFilter a c s)),
         altFilter := altFilter (fst (applyGpsFilter a c s)),
         weightedFilter := weightedFilter (fst (applyGpsFilter a c s))\<rparr>"
  by (simp add: applyGpsFilter_def Let_def)

lemma applyGpsFilter_fields:
  "distance (fst (applyGpsFilter a c s)) = distance s"
  "positions (fst (applyGpsFilter a c s)) = positions s"
  "splits (fst (applyGpsFilter a c s)) = splits s"
  "elevation (fst (applyGpsFilter a c s)) = elevation s"
  "lastSplitDistance (fst (applyGpsFilter a c s)) = lastSplitDistance s"
  "distanceGoal (fst (applyGpsFilter a c s)) = distanceGoal s"
  "isTracking (fst (applyGpsFilter a c s)) = isTracking s"
  "isPaused (fst (applyGpsFilter a c s)) = isPaused s"
  "startTime (fst (applyGpsFilter a c s)) = startTime s"
  "pausedTime (fst (applyGpsFilter a c s)) = pausedTime s"
  "activityType (fst (applyGpsFilter a c s)) = activityType s"
  "gpsGapFiller (fst (applyGpsFilter a c s)) = gpsGapFiller s"
  "lastGPSTime (fst (applyGpsFilter a c s)) = lastGPSTime s"
  "duration (fst (applyGpsFilter a c s)) = duration s"
  "timestamp (snd (applyGpsFilter a c s)) = timestamp c"
  by (simp_all add: applyGpsFilter_def Let_def split: option.splits)

lemma updateElevation_fields:
  "distance (fst (updateElevation alt s)) = distance s"
  "duration (fst (updateElevation alt s)) = duration s"
  "splits (fst (updateElevation alt s)) = splits s"
  "lastSplitDistance (fst (updateElevation alt s)) = lastSplitDistance s"
  by (simp_all add: updateElevation_def Let_def split: option.splits)

lemma elevationStep_fields:
  "distance (fst (elevationStep fp s)) = distance s"
  "duration (fst (elevationStep fp s)) = duration s"
  "splits (fst (elevationStep fp s)) = splits s"
  "lastSplitDistance (fst (elevationStep fp s)) = lastSplitDistance s"
  by (simp_all add: elevationStep_def updateElevation_fields split: option.splits)

lemma splitStep_distance: "distance (fst (splitStep e s)) = distance s"
  by (simp add: splitStep_def Let_def)

lemma storePosition_fields:
  "positions (storePosition e fp s) = positions s @
          [\<lparr> sp_latitude = latitude (coords fp), sp_longitude = longitude (coords fp),
             sp_altitude = altitude (coords fp), sp_accuracy = accuracy (coords fp),
             sp_timestamp = timestamp fp \<rparr>]"
  "distance (storePosition e fp s) = distance s"
  "duration (storePosition e fp s) = duration s"
  "splits (storePosition e fp s) = splits s"
  "elevation (storePosition e fp s) = elevation s"
  "lastSplitDistance (storePosition e fp s) = lastSplitDistance s"
  "distanceGoal (storePosition e fp s) = distanceGoal s"
  "isTracking (storePosition e fp s) = isTracking s"
  "isPaused (storePosition e fp s) = isPaused s"
  "startTime (storePosition e fp s) = startTime s"
  "pausedTime (storePosition e fp s) = pausedTime s"
  "activityType (storePosition e fp s) = activityType s"
  "gpsFilteringMode (storePosition e fp s) = gpsFilteringMode s"
  "latFilter (storePosition e fp s) = latFilter s"
  "lonFilter (storePosition e fp s) = lonFilter s"
  "altFilter (storePosition e fp s) = altFilter s"
  by (simp_all add: storePosition_def)

subsection \<open>The distance never decreases\<close>

lemma Math_atan2_not_infinite: "Math_atan2 y x \<noteq> PInf"
  by (cases y; cases x) simp_all

lemma calculateDistance_not_infinite: "calculateDistance a b c d \<noteq> PInf"
proof -
  have "Fin 6371000 * (Fin 2 * v) \<noteq> PInf" if "v \<noteq> PInf" for v
    using that by (cases v) simp_all
  then show ?thesis
    by (simp add: calculateDistance_def Let_def Math_atan2_not_infinite)
qed

lemma accumulateDistance_distance:
  assumes "distance s = Fin d" and "inc \<noteq> PInf"
  shows "\<exists>d'. distance (fst (accumulateDistance inc s)) = Fin d' \<and> d \<le> d'"
  using assms by (cases inc) (auto simp add: accumulateDistance_def Let_def split: option.splits)

lemma processMovement_distance:
  assumes "distance s = Fin d"
  shows "\<exists>d'. distance (fst (processMovement e fp s)) = Fin d' \<and> d \<le> d'"
proof -
  define inc where "inc = calculateDistance (sp_latitude (last (positions s))) (sp_longitude (last (positions s)))
                   (latitude (coords fp)) (longitude (coords fp))"
  have "inc \<noteq> PInf" unfolding inc_def by (rule calculateDistance_not_infinite)
  from accumulateDistance_distance [OF assms this]
  obtain d' where d': "distance (fst (accumulateDistance inc s)) = Fin d'" "d \<le> d'" by blast
  show ?thesis
    using d' assms
    by (auto simp add: processMovement_def Let_def inc_def [symmetric] split_def
        elevationStep_fields splitStep_distance)
qed

lemma addPosition_distance:
  assumes "distance s = Fin d"
  shows "\<exists>d'. distance (fst (addPosition e p s)) = Fin d' \<and> d \<le> d'"
proof -
  define s1 where "s1 = fst (applyGpsFilter (positionAccuracy p) (standardise (date_now e) p) s)"
  define fp where "fp = snd (applyGpsFilter (positionAccuracy p) (standardise (date_now e) p) s)"
  define s2 where "s2 = s1\<lparr>duration := (timestamp fp - startTime s1 - Fin (pausedTime s1)) / Fin 1000\<rparr>"
  have "distance s2 = Fin d" using assms by (simp add: s2_def s1_def applyGpsFilter_fields)
  from processMovement_distance [OF this, of e fp]
  obtain d' where d': "distance (fst (processMovement e fp s2)) = Fin d'" "d \<le> d'" by blast
  show ?thesis
    using d' assms \<open>distance s2 = Fin d\<close>
    by (auto simp add: addPosition_def Let_def split_def storePosition_fields
        s1_def [symmetric] fp_def [symmetric] s2_def [symmetric])
qed

lemma ingest_distance:
  "distance s = Fin d \<Longrightarrow> \<exists>d'. distance (ingest ps s) = Fin d' \<and> d \<le> d'"
proof (induction ps arbitrary: s d)
  case Nil
  then show ?case by simp
next
  case (Cons ep ps)
  from addPosition_distance [OF Cons.prems, of "fst ep" "snd ep"]
  obtain d1 where d1: "distance (fst (addPosition (fst ep) (snd ep) s)) = Fin d1" "d \<le> d1" by blast
  from Cons.IH [OF d1(1)] d1(2) show ?case by auto
qed

text \<open>
  C1. From a tracker whose distance is a number, after any sequence of fixes the distance
  is a number no smaller, and the next fix again leaves it no smaller: the accumulator
  never decreases from one fix to the next, whatever the fixes are.
\<close>

theorem distance_never_decreases:
  assumes "distance s = Fin d"
  shows "\<exists>d1 d2. distance (ingest ps s) = Fin d1
           \<and> distance (fst (addPosition e p (ingest ps s))) = Fin d2 \<and> d \<le> d1 \<and> d1 \<le> d2"
proof -
  from ingest_distance [OF assms]
  obtain d1 where d1: "distance (ingest ps s) = Fin d1" "d \<le> d1" by blast
  from addPosition_distance [OF d1(1)] d1 show ?thesis by blast
qed

theorem distance_never_decreases_witness:
  "distance goal_session = Fin 0
   \<and> (\<exists>d1 d2. distance (ingest [(env_at 1000, fix_at 0 0 5)] goal_session) = Fin d1
          \<and> distance (fst (addPosition (env_at 601000) second_fix
                 (ingest [(env_at 1000, fix_at 0 0 5)] goal_session))) = Fin d2
          \<and> 0 \<le> d1 \<and> d1 \<le> d2)"
proof -
  have d: "distance goal_session = Fin 0"
    by (simp add: goal_session_def setDistanceGoal_def started_session_def start_def
        new_RunTracker_def)
  from distance_never_decreases [OF d, of "[(env_at 1000, fix_at 0 0 5)]" "env_at 601000" second_fix]
  show ?thesis using d by simp
qed

subsection \<open>The concrete session, fix by fix\<close>

lemma started_session_fields:
  "isTracking started_session" "\<not> isPaused started_session" "positions started_session = []"
  "distance started_session = Fin 0" "splits started_session = []"
  "lastSplitDistance started_session = Fin 0" "distanceGoal started_session = None"
  "startTime started_session = Fin 0" "pausedTime started_session = 0"
  "activityType started_session = RUN" "gpsFilteringMode started_session = ''kalman''"
  "elevation started_session = empty_elevation"
  "latFilter started_session = \<lparr> kf_Q = Fin 3, kf_R = Fin (1 / 100), kf_x = None, kf_P = Fin 1, kf_K = Fin 0 \<rparr>"
  "lonFilter started_session = \<lparr> kf_Q = Fin 3, kf_R = Fin (1 / 100), kf_x = None, kf_P = Fin 1, kf_K = Fin 0 \<rparr>"
  by (simp_all add: started_session_def start_def new_RunTracker_def env_at_def kf_reset_def
      new_KalmanFilter1D_def)

lemma goal_session_fields:
  "isTracking goal_session" "\<not> isPaused goal_session" "positions goal_session = []"
  "distance goal_session = Fin 0" "splits goal_session = []"
  "lastSplitDistance goal_session = Fin 0" "distanceGoal goal_session = Some (Fin 1000)"
  "startTime goal_session = Fin 0" "pausedTime goal_session = 0"
  "activityType goal_session = RUN" "gpsFilteringMode goal_session = ''kalman''"
  "elevation goal_session = empty_elevation"
  "latFilter goal_session = \<lparr> kf_Q = Fin 3, kf_R = Fin (1 / 100), kf_x = None, kf_P = Fin 1, kf_K = Fin 0 \<rparr>"
  "lonFilter goal_session = \<lparr> kf_Q = Fin 3, kf_R = Fin (1 / 100), kf_x = None, kf_P = Fin 1, kf_K = Fin 0 \<rparr>"
  by (simp_all add: goal_session_def setDistanceGoal_def started_session_fields)

lemma first_fix_fields:
  assumes "isTracking s" "\<not> isPaused s" "positions s = []" "gpsFilteringMode s = ''kalman''"
    "activityType s = RUN"
    "latFilter s = \<lparr> kf_Q = Fin 3, kf_R = Fin (1 / 100), kf_x = None, kf_P = Fin 1, kf_K = Fin 0 \<rparr>"
    "lonFilter s = \<lparr> kf_Q = Fin 3, kf_R = Fin (1 / 100), kf_x = None, kf_P = Fin 1, kf_K = Fin 0 \<rparr>"
  shows "isTracking (after_first_fix s)" "\<not> isPaused (after_first_fix s)"
    "positions (after_first_fix s) = [\<lparr> sp_latitude = Fin 0, sp_longitude = Fin 0, sp_altitude = None,
        sp_accuracy = Fin 5, sp_timestamp = Fin 1000 \<rparr>]"
    "distance (after_first_fix s) = distance s" "splits (after_first_fix s) = splits s"
    "lastSplitDistance (after_first_fix s) = lastSplitDistance s"
    "distanceGoal (after_first_fix s) = distanceGoal s"
    "startTime (after_first_fix s) = startTime s" "pausedTime (after_first_fix s) = pausedTime s"
    "activityType (after_first_fix s) = RUN" "gpsFilteringMode (after_first_fix s) = ''kalman''"
    "elevation (after_first_fix s) = elevation s"
    "latFilter (after_first_fix s) = \<lparr> kf_Q = Fin 3, kf_R = Fin (1 / 4), kf_x = Some (Fin 0), kf_P = Fin 1, kf_K = Fin 0 \<rparr>"
    "lonFilter (after_first_fix s) = \<lparr> kf_Q = Fin 3, kf_R = Fin (1 / 4), kf_x = Some (Fin 0), kf_P = Fin 1, kf_K = Fin 0 \<rparr>"
  using assms
  by (simp_all add: after_first_fix_def addPosition_def Let_def split_def storePosition_fields
      positionAccuracy_def standardise_def fix_at_def env_at_def invalidCoordinates_def
      applyGpsFilter_def kf_filter_def adjustParameters_def)

lemmas goal_first = first_fix_fields [OF goal_session_fields(1,2,3,11,10,13,14)]

lemma second_fix_standard:
  "standardise (date_now (env_at 601000)) second_fix
     = \<lparr> timestamp = Fin 601000,
         coords = \<lparr> latitude = Fin (16 / 1000), longitude = Fin 0, accuracy = Fin 5, altitude = None \<rparr> \<rparr>"
  "positionAccuracy second_fix = Fin 5"
  by (simp_all add: standardise_def second_fix_def fix_at_def env_at_def positionAccuracy_def)

lemma second_fix_filtered:
  assumes "gpsFilteringMode s = ''kalman''" "activityType s = RUN"
    "latFilter s = \<lparr> kf_Q = Fin 3, kf_R = Fin (1 / 4), kf_x = Some (Fin 0), kf_P = Fin 1, kf_K = Fin 0 \<rparr>"
    "lonFilter s = \<lparr> kf_Q = Fin 3, kf_R = Fin (1 / 4), kf_x = Some (Fin 0), kf_P = Fin 1, kf_K = Fin 0 \<rparr>"
  shows "snd (applyGpsFilter (Fin 5) (standardise (date_now (env_at 601000)) second_fix) s)
     = \<lparr> timestamp = Fin 601000,
         coords = \<lparr> latitude = Fin (32 / 2125), longitude = Fin 0, accuracy = Fin 5, altitude = None \<rparr> \<rparr>"
  using assms
  by (simp add: second_fix_standard applyGpsFilter_def kf_filter_def adjustParameters_def Let_def
      minus_jsnum_def)

lemma second_fix_increment:
  "calculateDistance (Fin 0) (Fin 0) (Fin (32 / 2125)) (Fin 0) = Fin (6371000 * (32 / 2125 * pi / 180))"
  "1000 \<le> 6371000 * (32 / 2125 * pi / 180)"
  using calculateDistance_meridian [of "32 / 2125" 0 0] pi_ge_two by simp_all

lemmas plain_first = first_fix_fields [OF started_session_fields(1,2,3,11,10,13,14)]

lemma goal_fix_outcome:
  "distance (fst (addPosition (env_at 601000) second_fix (after_first_fix goal_session)))
     = Fin (6371000 * (32 / 2125 * pi / 180))"
  "splits (fst (addPosition (env_at 601000) second_fix (after_first_fix goal_session))) = []"
  "lastSplitDistance (fst (addPosition (env_at 601000) second_fix (after_first_fix goal_session)))
     = Fin 0"
proof -
  let ?s = "after_first_fix goal_session" and ?e = "env_at 601000"
  have fp: "snd (applyGpsFilter (Fin 5) (standardise (date_now ?e) second_fix) ?s)
     = \<lparr> timestamp = Fin 601000,
         coords = \<lparr> latitude = Fin (32 / 2125), longitude = Fin 0, accuracy = Fin 5, altitude = None \<rparr> \<rparr>"
    by (rule second_fix_filtered [OF goal_first(11,10,13,14)])
  have fp': "snd (applyGpsFilter (Fin 5)
        \<lparr> timestamp = Fin 601000,
          coords = \<lparr> latitude = Fin (2 / 125), longitude = Fin 0, accuracy = Fin 5, altitude = None \<rparr> \<rparr> ?s)
     = \<lparr> timestamp = Fin 601000,
         coords = \<lparr> latitude = Fin (32 / 2125), longitude = Fin 0, accuracy = Fin 5, altitude = None \<rparr> \<rparr>"
    using fp by (simp add: second_fix_standard)
  have valid: "\<not> invalidCoordinates (Fin (2 / 125)) (Fin 0)"
    by (simp add: invalidCoordinates_def)
  have accept: "filterLocation ?e = (\<lambda>p q. True)" by (simp add: env_at_def)
  have all: "distance (fst (addPosition ?e second_fix ?s)) = Fin (6371000 * (32 / 2125 * pi / 180))
      \<and> splits (fst (addPosition ?e second_fix ?s)) = []
      \<and> lastSplitDistance (fst (addPosition ?e second_fix ?s)) = Fin 0"
    using second_fix_increment(2)
    by (simp add: addPosition_def Let_def split_def processMovement_def accumulateDistance_def
        goalReached_def applyGpsFilter_fields second_fix_standard valid accept fp' goal_first
        goal_session_fields second_fix_increment(1))
  show "distance (fst (addPosition ?e second_fix ?s)) = Fin (6371000 * (32 / 2125 * pi / 180))"
    "splits (fst (addPosition ?e second_fix ?s)) = []"
    "lastSplitDistance (fst (addPosition ?e second_fix ?s)) = Fin 0"
    using all by blast+
qed

subsection \<open>Reaching the goal\<close>

text \<open>
  C10. A fix that passes the gates and the quality filter, moves at least 0.5 m from the
  previous position and brings the distance to an active goal or beyond: \<open>addPosition\<close>
  emits the duration, the distance and the goal-reached notification and returns. The
  tracker is still tracking; the fix is not appended to the positions, and the elevation,
  the splits and the last split distance are as before.
\<close>

theorem goal_reached_returns_early:
  assumes "isTracking s" and "\<not> isPaused s"
    and "cur = standardise (date_now e) p"
    and "\<not> positionAccuracy p > Fin 20"
    and "\<not> invalidCoordinates (latitude (coords cur)) (longitude (coords cur))"
    and "fp = snd (applyGpsFilter (positionAccuracy p) cur s)"
    and "positions s \<noteq> []"
    and "filterLocation e fp (standardise (date_now e) (raw_of_stored (last (positions s))))"
    and "inc = calculateDistance (sp_latitude (last (positions s))) (sp_longitude (last (positions s)))
                 (latitude (coords fp)) (longitude (coords fp))"
    and "inc \<ge> Fin (1 / 2)"
    and "distanceGoal s = Some g" and "truthy g" and "distance s + inc \<ge> g"
  shows "snd (addPosition e p s)
           = [DurationChange ((timestamp cur - startTime s - Fin (pausedTime s)) / Fin 1000),
              DistanceChange (distance s + inc), GoalReached (distance s + inc) g]
       \<and> isTracking (fst (addPosition e p s))
       \<and> distance (fst (addPosition e p s)) = distance s + inc
       \<and> positions (fst (addPosition e p s)) = positions s
       \<and> elevation (fst (addPosition e p s)) = elevation s
       \<and> splits (fst (addPosition e p s)) = splits s
       \<and> lastSplitDistance (fst (addPosition e p s)) = lastSplitDistance s"
  using assms
  by (simp add: addPosition_def Let_def split_def processMovement_def accumulateDistance_def
      goalReached_def applyGpsFilter_fields)

theorem goal_reached_returns_early_witness:
  "isTracking (after_first_fix goal_session) \<and> \<not> isPaused (after_first_fix goal_session)
   \<and> positions (after_first_fix goal_session) \<noteq> []
   \<and> distanceGoal (after_first_fix goal_session) = Some (Fin 1000)
   \<and> calculateDistance (Fin 0) (Fin 0) (Fin (32 / 2125)) (Fin 0) \<ge> Fin 1000
   \<and> snd (addPosition (env_at 601000) second_fix (after_first_fix goal_session))
       = [DurationChange (Fin 601), DistanceChange (Fin (6371000 * (32 / 2125 * pi / 180))),
          GoalReached (Fin (6371000 * (32 / 2125 * pi / 180))) (Fin 1000)]
   \<and> isTracking (fst (addPosition (env_at 601000) second_fix (after_first_fix goal_session)))
   \<and> positions (fst (addPosition (env_at 601000) second_fix (after_first_fix goal_session)))
       = positions (after_first_fix goal_session)
   \<and> splits (fst (addPosition (env_at 601000) second_fix (after_first_fix goal_session))) = []
   \<and> elevation (fst (addPosition (env_at 601000) second_fix (after_first_fix goal_session)))
       = empty_elevation"
proof -
  let ?s = "after_first_fix goal_session" and ?e = "env_at 601000"
  have fp: "snd (applyGpsFilter (positionAccuracy second_fix) (standardise (date_now ?e) second_fix) ?s)
     = \<lparr> timestamp = Fin 601000,
         coords = \<lparr> latitude = Fin (32 / 2125), longitude = Fin 0, accuracy = Fin 5, altitude = None \<rparr> \<rparr>"
    using second_fix_filtered [OF goal_first(11,10,13,14)] by (simp add: second_fix_standard)
  have "snd (addPosition ?e second_fix ?s)
           = [DurationChange ((timestamp (standardise (date_now ?e) second_fix) - startTime ?s - Fin (pausedTime ?s)) / Fin 1000),
              DistanceChange (distance ?s + Fin (6371000 * (32 / 2125 * pi / 180))),
              GoalReached (distance ?s + Fin (6371000 * (32 / 2125 * pi / 180))) (Fin 1000)]
       \<and> isTracking (fst (addPosition ?e second_fix ?s))
       \<and> distance (fst (addPosition ?e second_fix ?s)) = distance ?s + Fin (6371000 * (32 / 2125 * pi / 180))
       \<and> positions (fst (addPosition ?e second_fix ?s)) = positions ?s
       \<and> elevation (fst (addPosition ?e second_fix ?s)) = elevation ?s
       \<and> splits (fst (addPosition ?e second_fix ?s)) = splits ?s
       \<and> lastSplitDistance (fst (addPosition ?e second_fix ?s)) = lastSplitDistance ?s"
  proof (rule goal_reached_returns_early [OF goal_first(1,2) refl _ _ refl])
    show "\<not> Fin 20 < positionAccuracy second_fix" by (simp add: second_fix_standard)
    show "\<not> invalidCoordinates (latitude (coords (standardise (date_now ?e) second_fix)))
             (longitude (coords (standardise (date_now ?e) second_fix)))"
      by (simp add: second_fix_standard invalidCoordinates_def)
    show "positions ?s \<noteq> []" by (simp add: goal_first)
    show "filterLocation ?e (snd (applyGpsFilter (positionAccuracy second_fix) (standardise (date_now ?e) second_fix) ?s))
           (standardise (date_now ?e) (raw_of_stored (last (positions ?s))))"
      by (simp add: env_at_def)
    show "Fin (6371000 * (32 / 2125 * pi / 180)) =
        calculateDistance (sp_latitude (last (positions ?s))) (sp_longitude (last (positions ?s)))
         (latitude (coords (snd (applyGpsFilter (positionAccuracy second_fix) (standardise (date_now ?e) second_fix) ?s))))
         (longitude (coords (snd (applyGpsFilter (positionAccuracy second_fix) (standardise (date_now ?e) second_fix) ?s))))"
      by (simp add: fp goal_first second_fix_increment)
    show "Fin (1 / 2) \<le> Fin (6371000 * (32 / 2125 * pi / 180))"
      using second_fix_increment(2) by simp
    show "distanceGoal ?s = Some (Fin 1000)" by (simp add: goal_first goal_session_fields)
    show "truthy (Fin 1000)" by simp
    show "Fin 1000 \<le> distance ?s + Fin (6371000 * (32 / 2125 * pi / 180))"
      using second_fix_increment(2) by (simp add: goal_first goal_session_fields)
  qed
  then show ?thesis
    using second_fix_increment(2)
    by (simp add: goal_first goal_session_fields second_fix_standard second_fix_increment(1) minus_jsnum_def)
qed

subsection \<open>Doubles around seven miles\<close>

text \<open>
  Within a binade the doubles are the multiples of one power of two, and rounding moves a
  number by at most half of it.
\<close>

lemma fl_binade:
  assumes "2 ^ k \<le> x" and "x < 2 ^ Suc k" and "k \<le> 52"
  shows "fl x = of_int (round_even (x * 2 ^ (52 - k))) / 2 ^ (52 - k)"
proof -
  have pos: "0 < x" using assms(1) by (smt (verit) zero_less_power)
  have "\<lfloor>log 2 x\<rfloor> = int k"
    using pos assms(1,2)
    by (subst floor_log_eq_powr_iff) (simp_all add: powr_realpow powr_add)
  then have "\<lfloor>log 2 \<bar>x\<bar>\<rfloor> = int k" using pos by simp
  moreover have "2 powr (of_int (int k - 52)) = 1 / (2 :: real) ^ (52 - k)"
  proof -
    have "of_int (int k - 52) = - real (52 - k)" using assms(3) by simp
    then show ?thesis by (simp only: powr_minus powr_realpow zero_less_numeral inverse_eq_divide)
  qed
  ultimately show ?thesis using pos by (simp add: fl_def Let_def)
qed

lemma round_even_near: "\<bar>of_int (round_even y) - y\<bar> \<le> 1 / 2"
  by (simp add: round_even_def Let_def; linarith)

lemma mile_double: "fl (1609344 / 1000) = 1769492441091539 / 1099511627776"
  using fl_binade [of 10 "1609344 / 1000"] by (simp add: round_even_def Let_def)

text \<open>
  The mile as a double, its products with 6 and 7 as doubles, and the quotients of these
  products by the mile: \<open>6 * 1609.344 / 1609.344\<close> is \<open>6\<close>, but \<open>7 * 1609.344 / 1609.344\<close>
  is the double below \<open>7\<close>.
\<close>

lemma mile_double_norm: "fl (201168 / 125) = 1769492441091539 / 1099511627776"
  using mile_double by simp

lemma mile_products:
  "fl (6 * (1769492441091539 / 1099511627776)) = 5308477323274617 / 549755813888"
  "fl (7 * (1769492441091539 / 1099511627776)) = 3096611771910193 / 274877906944"
  using fl_binade [of 13 "6 * (1769492441091539 / 1099511627776)"]
    fl_binade [of 13 "7 * (1769492441091539 / 1099511627776)"]
  by (simp_all add: round_even_def Let_def)

lemma mile_quotients:
  "fl (5308477323274617 / 549755813888 / (1769492441091539 / 1099511627776)) = 6"
  "fl (3096611771910193 / 274877906944 / (1769492441091539 / 1099511627776))
     = 7881299347898367 / 1125899906842624"
  using fl_binade [of 2 "5308477323274617 / 549755813888 / (1769492441091539 / 1099511627776)"]
    fl_binade [of 2 "3096611771910193 / 274877906944 / (1769492441091539 / 1099511627776)"]
  by (simp_all add: round_even_def Let_def)

lemma mile_products_norm:
  "fl (5308477323274617 / 549755813888) = 5308477323274617 / 549755813888"
  "fl (12386447087640773 / 1099511627776) = 3096611771910193 / 274877906944"
  using mile_products by simp_all

lemma mile_quotients_norm:
  "fl (12386447087640772 / 1769492441091539) = 7881299347898367 / 1125899906842624"
  using mile_quotients(2) by simp

lemma stored_mile_seven:
  "double (Fin 7 * double (Fin (1609344 / 1000))) = Fin (3096611771910193 / 274877906944)"
  "\<lfloor>fl (3096611771910193 / 274877906944 / fl (1609344 / 1000))\<rfloor> = 6"
  "\<lfloor>fl (5308477323274617 / 549755813888 / fl (1609344 / 1000))\<rfloor> = 6"
    apply (simp add: mile_double_norm mile_products_norm)
   apply (simp only: mile_double mile_quotients)
   apply simp
  apply (simp only: mile_double mile_quotients)
  apply simp
  done

text \<open>A distance at least half a metre inside the eighth mile has unit number 7.\<close>

lemma fl_floor_seven:
  assumes "7 + 1 / 10000 \<le> x" and "x \<le> 8 - 1 / 10000"
  shows "\<lfloor>fl x\<rfloor> = 7"
proof -
  have f: "fl x = of_int (round_even (x * 2 ^ 50)) / 2 ^ 50"
    using fl_binade [of 2 x] assms by simp
  have n: "\<bar>of_int (round_even (x * 2 ^ 50)) - x * 2 ^ 50\<bar> \<le> 1 / 2" by (rule round_even_near)
  have "fl x - x = (of_int (round_even (x * 2 ^ 50)) - x * 2 ^ 50) / 2 ^ 50"
    by (simp add: f field_simps)
  then have "\<bar>fl x - x\<bar> = \<bar>of_int (round_even (x * 2 ^ 50)) - x * 2 ^ 50\<bar> / 2 ^ 50"
    by (simp only: abs_divide) simp
  also have "\<dots> \<le> 1 / 2 / 2 ^ 50"
    by (rule divide_right_mono [OF n]) simp
  also have "\<dots> \<le> 1 / 20000" by simp
  finally have "\<bar>fl x - x\<bar> \<le> 1 / 20000" .
  then have "7 \<le> fl x" "fl x < 8" using assms by linarith+
  then show ?thesis by (simp add: floor_eq_iff)
qed

lemma in_mile_seven:
  assumes "7 * (1609344 / 1000) + 1 / 2 \<le> x" and "x \<le> 8 * (1609344 / 1000) - 1 / 2"
  shows "\<lfloor>fl (x / fl (1609344 / 1000))\<rfloor> = 7"
proof -
  let ?U = "1769492441091539 / 1099511627776 :: real"
  have "(7 + 1 / 10000) * ?U \<le> x" "x \<le> (8 - 1 / 10000) * ?U" using assms by simp_all
  then have "7 + 1 / 10000 \<le> x / ?U" "x / ?U \<le> 8 - 1 / 10000"
    by (simp_all add: pos_le_divide_eq pos_divide_le_eq)
  then have "\<lfloor>fl (x / ?U)\<rfloor> = 7" by (rule fl_floor_seven)
  then show ?thesis by (simp only: mile_double)
qed

subsection \<open>Splits\<close>

text \<open>
  What the stages of \<open>addPosition\<close> leave alone, for the fields that the split
  evaluation does not read.
\<close>

lemma accumulateDistance_frame:
  "positions (fst (accumulateDistance inc s)) = positions s"
  "splits (fst (accumulateDistance inc s)) = splits s"
  "lastSplitDistance (fst (accumulateDistance inc s)) = lastSplitDistance s"
  "duration (fst (accumulateDistance inc s)) = duration s"
  "latFilter (fst (accumulateDistance inc s)) = latFilter s"
  "lonFilter (fst (accumulateDistance inc s)) = lonFilter s"
  "isTracking (fst (accumulateDistance inc s)) = isTracking s"
  "isPaused (fst (accumulateDistance inc s)) = isPaused s"
  "distanceGoal (fst (accumulateDistance inc s)) = distanceGoal s"
  "gpsFilteringMode (fst (accumulateDistance inc s)) = gpsFilteringMode s"
  "activityType (fst (accumulateDistance inc s)) = activityType s"
  "startTime (fst (accumulateDistance inc s)) = startTime s"
  "pausedTime (fst (accumulateDistance inc s)) = pausedTime s"
  by (simp_all add: accumulateDistance_def Let_def split: option.splits)

lemma updateElevation_frame:
  "positions (fst (updateElevation alt s)) = positions s"
  "latFilter (fst (updateElevation alt s)) = latFilter s"
  "lonFilter (fst (updateElevation alt s)) = lonFilter s"
  "isTracking (fst (updateElevation alt s)) = isTracking s"
  "isPaused (fst (updateElevation alt s)) = isPaused s"
  "distanceGoal (fst (updateElevation alt s)) = distanceGoal s"
  "gpsFilteringMode (fst (updateElevation alt s)) = gpsFilteringMode s"
  "activityType (fst (updateElevation alt s)) = activityType s"
  "startTime (fst (updateElevation alt s)) = startTime s"
  "pausedTime (fst (updateElevation alt s)) = pausedTime s"
  by (simp_all add: updateElevation_def Let_def split: option.splits)

lemma elevationStep_frame:
  "positions (fst (elevationStep fp s)) = positions s"
  "latFilter (fst (elevationStep fp s)) = latFilter s"
  "lonFilter (fst (elevationStep fp s)) = lonFilter s"
  "isTracking (fst (elevationStep fp s)) = isTracking s"
  "isPaused (fst (elevationStep fp s)) = isPaused s"
  "distanceGoal (fst (elevationStep fp s)) = distanceGoal s"
  "gpsFilteringMode (fst (elevationStep fp s)) = gpsFilteringMode s"
  "activityType (fst (elevationStep fp s)) = activityType s"
  "startTime (fst (elevationStep fp s)) = startTime s"
  "pausedTime (fst (elevationStep fp s)) = pausedTime s"
  by (simp_all add: elevationStep_def updateElevation_frame split: option.splits)

lemma splitStep_frame:
  "distance (fst (splitStep e s)) = distance s"
  "duration (fst (splitStep e s)) = duration s"
  "positions (fst (splitStep e s)) = positions s"
  "latFilter (fst (splitStep e s)) = latFilter s"
  "lonFilter (fst (splitStep e s)) = lonFilter s"
  "isTracking (fst (splitStep e s)) = isTracking s"
  "isPaused (fst (splitStep e s)) = isPaused s"
  "distanceGoal (fst (splitStep e s)) = distanceGoal s"
  "gpsFilteringMode (fst (splitStep e s)) = gpsFilteringMode s"
  "activityType (fst (splitStep e s)) = activityType s"
  "startTime (fst (splitStep e s)) = startTime s"
  "pausedTime (fst (splitStep e s)) = pausedTime s"
  by (simp_all add: splitStep_def Let_def)

lemma applyGpsFilter_mode:
  "gpsFilteringMode (fst (applyGpsFilter a c s)) = gpsFilteringMode s"
  by (simp add: applyGpsFilter_def Let_def split: option.splits)

text \<open>The split evaluation in miles, on finite numbers, when the unit number has grown.\<close>

lemma splitStep_mile:
  assumes "getDistanceUnit e \<noteq> ''km''" and "distance s = Fin d" and "lastSplitDistance s = Fin l"
    and "\<lfloor>fl (l / fl (1609344 / 1000))\<rfloor> < \<lfloor>fl (d / fl (1609344 / 1000))\<rfloor>"
  shows "map s_km (splits (fst (splitStep e s)))
           = map s_km (splits s) @ [Fin (of_int \<lfloor>fl (d / fl (1609344 / 1000))\<rfloor>)]"
    and "lastSplitDistance (fst (splitStep e s))
           = Fin (fl (of_int \<lfloor>fl (d / fl (1609344 / 1000))\<rfloor> * fl (1609344 / 1000)))"
  using assms by (simp_all add: splitStep_def Let_def mile_double_norm)

lemma splitStep_mile_full:
  assumes "getDistanceUnit e \<noteq> ''km''" and "distance s = Fin d" and "lastSplitDistance s = Fin l"
    and "\<lfloor>fl (l / fl (1609344 / 1000))\<rfloor> < \<lfloor>fl (d / fl (1609344 / 1000))\<rfloor>"
  shows "splits (fst (splitStep e s))
           = splits s @ [\<lparr> s_km = Fin (of_int \<lfloor>fl (d / fl (1609344 / 1000))\<rfloor>), s_time = duration s,
               s_pace = double (double (duration s
                          - (if splits s \<noteq> [] then s_time (last (splits s)) else Fin 0))
                        / double (Fin (1609344 / 1000))),
               s_isPartial = False \<rparr>]"
  using assms by (simp add: splitStep_def Let_def mile_double_norm)

text \<open>
  A fix that passes the gates and the quality filter, moves at least 0.5 m and does not
  reach an active goal: the tracker after it is the one that the split evaluation and the
  storing produce from a tracker with the increment added and the filters updated.
\<close>

lemma accepted_fix_effect:
  assumes "isTracking s" and "\<not> isPaused s"
    and "cur = standardise (date_now e) p"
    and "\<not> positionAccuracy p > Fin 20"
    and "\<not> invalidCoordinates (latitude (coords cur)) (longitude (coords cur))"
    and "fp = snd (applyGpsFilter (positionAccuracy p) cur s)"
    and "positions s \<noteq> []"
    and "filterLocation e fp (standardise (date_now e) (raw_of_stored (last (positions s))))"
    and "inc = calculateDistance (sp_latitude (last (positions s))) (sp_longitude (last (positions s)))
                 (latitude (coords fp)) (longitude (coords fp))"
    and "inc \<ge> Fin (1 / 2)"
    and "\<forall>g. distanceGoal s = Some g \<longrightarrow> \<not> (truthy g \<and> distance s + inc \<ge> g)"
  shows "\<exists>t. fst (addPosition e p s) = storePosition e fp (fst (splitStep e t))
          \<and> distance t = distance s + inc
          \<and> duration t = (timestamp cur - startTime s - Fin (pausedTime s)) / Fin 1000
          \<and> splits t = splits s \<and> lastSplitDistance t = lastSplitDistance s
          \<and> positions t = positions s
          \<and> latFilter t = latFilter (fst (applyGpsFilter (positionAccuracy p) cur s))
          \<and> lonFilter t = lonFilter (fst (applyGpsFilter (positionAccuracy p) cur s))
          \<and> isTracking t \<and> \<not> isPaused t \<and> distanceGoal t = distanceGoal s
          \<and> gpsFilteringMode t = gpsFilteringMode s \<and> activityType t = activityType s
          \<and> startTime t = startTime s \<and> pausedTime t = pausedTime s"
proof -
  let ?cur = "standardise (date_now e) p"
  let ?fp = "snd (applyGpsFilter (positionAccuracy p) ?cur s)"
  let ?inc = "calculateDistance (sp_latitude (last (positions s))) (sp_longitude (last (positions s)))
                 (latitude (coords ?fp)) (longitude (coords ?fp))"
  let ?dur = "(timestamp ?cur - startTime s - Fin (pausedTime s)) / Fin 1000"
  let ?s2 = "(fst (applyGpsFilter (positionAccuracy p) ?cur s))\<lparr>duration := ?dur\<rparr>"
  let ?s3 = "fst (accumulateDistance ?inc ?s2)"
  let ?s4 = "fst (elevationStep ?fp ?s3)"
  have inc: "?inc \<ge> Fin (1 / 2)" using assms(10) by (simp add: assms(9,6,3))
  have goal: "goalReached (?s2\<lparr>distance := distance s + ?inc\<rparr>) = None"
    using assms(11) by (auto simp add: goalReached_def applyGpsFilter_fields assms(9,6,3) split: option.splits)
  have acc: "\<not> snd (snd (accumulateDistance ?inc ?s2))"
    using inc goal by (simp add: accumulateDistance_def Let_def applyGpsFilter_fields)
  have d3: "distance ?s3 = distance s + ?inc"
    using inc goal by (simp add: accumulateDistance_def Let_def applyGpsFilter_fields)
  have gates: "\<not> positionAccuracy p > Fin 20"
    "\<not> invalidCoordinates (latitude (coords ?cur)) (longitude (coords ?cur))"
    "filterLocation e ?fp (standardise (date_now e) (raw_of_stored (last (positions s))))"
    using assms(4,5,8) by (simp_all add: assms(6,3))
  have "fst (addPosition e p s) = storePosition e ?fp (fst (splitStep e ?s4))"
    using assms(1,2,7) gates acc
    by (simp add: addPosition_def Let_def split_def processMovement_def applyGpsFilter_fields)
  moreover have "distance ?s4 = distance s + ?inc"
    by (simp only: elevationStep_fields d3)
  moreover have "duration ?s4 = ?dur" "splits ?s4 = splits s"
    "lastSplitDistance ?s4 = lastSplitDistance s" "positions ?s4 = positions s"
    "latFilter ?s4 = latFilter (fst (applyGpsFilter (positionAccuracy p) ?cur s))"
    "lonFilter ?s4 = lonFilter (fst (applyGpsFilter (positionAccuracy p) ?cur s))"
    "isTracking ?s4" "\<not> isPaused ?s4" "distanceGoal ?s4 = distanceGoal s"
    "gpsFilteringMode ?s4 = gpsFilteringMode s" "activityType ?s4 = activityType s"
    "startTime ?s4 = startTime s" "pausedTime ?s4 = pausedTime s"
    using assms(1,2)
    by (simp_all add: elevationStep_fields elevationStep_frame accumulateDistance_frame
        applyGpsFilter_fields applyGpsFilter_mode)
  ultimately show ?thesis
    unfolding assms(3,6,9) by (intro exI [of _ ?s4] conjI)
qed

text \<open>The session in miles, before and after the fix that completes mile seven.\<close>

lemma mile_env_unit: "getDistanceUnit (mile_env t) \<noteq> ''km''"
  by (simp add: getDistanceUnit_def mile_env_def)

lemma six_mile_session_fields:
  "isTracking six_mile_session" "\<not> isPaused six_mile_session"
  "positions six_mile_session = [\<lparr> sp_latitude = Fin 0, sp_longitude = Fin 0, sp_altitude = None,
        sp_accuracy = Fin 5, sp_timestamp = Fin 1000 \<rparr>]"
  "distance six_mile_session = Fin 11265"
  "map s_km (splits six_mile_session) = [Fin 1, Fin 2, Fin 3, Fin 4, Fin 5, Fin 6]"
  "lastSplitDistance six_mile_session = Fin (5308477323274617 / 549755813888)"
  "distanceGoal six_mile_session = None"
  "startTime six_mile_session = Fin 0" "pausedTime six_mile_session = 0"
  "activityType six_mile_session = RUN" "gpsFilteringMode six_mile_session = ''kalman''"
  "latFilter six_mile_session = \<lparr> kf_Q = Fin 3, kf_R = Fin (1 / 4), kf_x = Some (Fin 0), kf_P = Fin 1, kf_K = Fin 0 \<rparr>"
  "lonFilter six_mile_session = \<lparr> kf_Q = Fin 3, kf_R = Fin (1 / 4), kf_x = Some (Fin 0), kf_P = Fin 1, kf_K = Fin 0 \<rparr>"
  by (simp_all add: six_mile_session_def six_splits_def plain_first started_session_fields
      mile_double_norm mile_products_norm)

lemma seventh_mile_session_fields:
  "isTracking seventh_mile_session" "\<not> isPaused seventh_mile_session"
  "positions seventh_mile_session
     = [\<lparr> sp_latitude = Fin 0, sp_longitude = Fin 0, sp_altitude = None,
          sp_accuracy = Fin 5, sp_timestamp = Fin 1000 \<rparr>,
        \<lparr> sp_latitude = Fin (16 / 1000000), sp_longitude = Fin 0, sp_altitude = None,
          sp_accuracy = Fin 5, sp_timestamp = Fin 3601000 \<rparr>]"
  "distance seventh_mile_session = Fin (11265 + 6371000 * (16 / 1000000 * pi / 180))"
  "map s_km (splits seventh_mile_session) = [Fin 1, Fin 2, Fin 3, Fin 4, Fin 5, Fin 6, Fin 7]"
  "lastSplitDistance seventh_mile_session = double (Fin 7 * double (Fin (1609344 / 1000)))"
  "distanceGoal seventh_mile_session = None"
  "startTime seventh_mile_session = Fin 0" "pausedTime seventh_mile_session = 0"
  "activityType seventh_mile_session = RUN" "gpsFilteringMode seventh_mile_session = ''kalman''"
  "latFilter seventh_mile_session = \<lparr> kf_Q = Fin 3, kf_R = Fin (1 / 4),
     kf_x = Some (Fin (16 / 1000000)), kf_P = Fin (4 / 17), kf_K = Fin (16 / 17) \<rparr>"
  "lonFilter seventh_mile_session = \<lparr> kf_Q = Fin 3, kf_R = Fin (1 / 4),
     kf_x = Some (Fin 0), kf_P = Fin (4 / 17), kf_K = Fin (16 / 17) \<rparr>"
proof -
  let ?e = "mile_env 3601000" and ?p = "fix_at (17 / 1000000) 0 5" and ?s = six_mile_session
  note six = six_mile_session_fields
  define cur where "cur = standardise (date_now ?e) ?p"
  define fp where "fp = snd (applyGpsFilter (positionAccuracy ?p) cur ?s)"
  have acc: "positionAccuracy ?p = Fin 5" by (simp add: positionAccuracy_def fix_at_def)
  have cur: "cur = \<lparr> timestamp = Fin 3601000,
         coords = \<lparr> latitude = Fin (17 / 1000000), longitude = Fin 0, accuracy = Fin 5,
                    altitude = None \<rparr> \<rparr>"
    by (simp add: cur_def standardise_def fix_at_def mile_env_def env_at_def)
  have fp: "fp = \<lparr> timestamp = Fin 3601000,
         coords = \<lparr> latitude = Fin (16 / 1000000), longitude = Fin 0, accuracy = Fin 5,
                    altitude = None \<rparr> \<rparr>"
    by (simp add: fp_def acc cur applyGpsFilter_def kf_filter_def adjustParameters_def Let_def
        minus_jsnum_def six)
  have filters: "latFilter (fst (applyGpsFilter (positionAccuracy ?p) cur ?s))
       = \<lparr> kf_Q = Fin 3, kf_R = Fin (1 / 4), kf_x = Some (Fin (16 / 1000000)), kf_P = Fin (4 / 17),
           kf_K = Fin (16 / 17) \<rparr>"
    "lonFilter (fst (applyGpsFilter (positionAccuracy ?p) cur ?s))
       = \<lparr> kf_Q = Fin 3, kf_R = Fin (1 / 4), kf_x = Some (Fin 0), kf_P = Fin (4 / 17),
           kf_K = Fin (16 / 17) \<rparr>"
    by (simp_all add: acc cur applyGpsFilter_def kf_filter_def adjustParameters_def Let_def
        minus_jsnum_def six)
  have inc: "calculateDistance (sp_latitude (last (positions ?s))) (sp_longitude (last (positions ?s)))
               (latitude (coords fp)) (longitude (coords fp))
             = Fin (6371000 * (16 / 1000000 * pi / 180))"
    using calculateDistance_meridian [of "16 / 1000000" 0 0] by (simp add: six fp)
  have bounds: "1 / 2 \<le> 6371000 * (16 / 1000000 * pi / 180)"
    "7 * (1609344 / 1000) + 1 / 2 \<le> 11265 + 6371000 * (16 / 1000000 * pi / 180)"
    "11265 + 6371000 * (16 / 1000000 * pi / 180) \<le> 8 * (1609344 / 1000) - 1 / 2"
    using pi_ge_two pi_less_4 by simp_all
  have p1: "\<not> positionAccuracy ?p > Fin 20" by (simp add: acc)
  have p2: "\<not> invalidCoordinates (latitude (coords cur)) (longitude (coords cur))"
    by (simp add: cur invalidCoordinates_def)
  have p3: "positions ?s \<noteq> []" by (simp add: six)
  have p4: "filterLocation ?e fp (standardise (date_now ?e) (raw_of_stored (last (positions ?s))))"
    by (simp add: mile_env_def env_at_def)
  have p5: "calculateDistance (sp_latitude (last (positions ?s))) (sp_longitude (last (positions ?s)))
               (latitude (coords fp)) (longitude (coords fp)) \<ge> Fin (1 / 2)"
    using bounds(1) by (simp only: inc) simp
  have p6: "\<forall>g. distanceGoal ?s = Some g \<longrightarrow> \<not> (truthy g \<and> distance ?s
      + calculateDistance (sp_latitude (last (positions ?s))) (sp_longitude (last (positions ?s)))
               (latitude (coords fp)) (longitude (coords fp)) \<ge> g)"
    by (simp add: six)
  obtain t where t: "seventh_mile_session = storePosition ?e fp (fst (splitStep ?e t))"
    "distance t = Fin (11265 + 6371000 * (16 / 1000000 * pi / 180))"
    "splits t = splits ?s" "lastSplitDistance t = Fin (5308477323274617 / 549755813888)"
    "positions t = positions ?s"
    "latFilter t = latFilter (fst (applyGpsFilter (positionAccuracy ?p) cur ?s))"
    "lonFilter t = lonFilter (fst (applyGpsFilter (positionAccuracy ?p) cur ?s))"
    "isTracking t" "\<not> isPaused t" "distanceGoal t = None"
    "gpsFilteringMode t = ''kalman''" "activityType t = RUN"
    "startTime t = Fin 0" "pausedTime t = 0"
    using accepted_fix_effect [OF six(1,2) cur_def p1 p2 fp_def p3 p4 refl p5 p6]
    unfolding inc seventh_mile_session_def [symmetric] by (auto simp add: six)
  have seven: "\<lfloor>fl ((11265 + 6371000 * (16 / 1000000 * pi / 180)) / fl (1609344 / 1000))\<rfloor> = 7"
    using bounds(2,3) by (rule in_mile_seven)
  have less: "\<lfloor>fl (5308477323274617 / 549755813888 / fl (1609344 / 1000))\<rfloor>
      < \<lfloor>fl ((11265 + 6371000 * (16 / 1000000 * pi / 180)) / fl (1609344 / 1000))\<rfloor>"
    by (simp only: seven stored_mile_seven)
  note sp = splitStep_mile [OF mile_env_unit t(2) t(4) less, unfolded seven]
  show "isTracking seventh_mile_session" "\<not> isPaused seventh_mile_session"
    "distanceGoal seventh_mile_session = None"
    "startTime seventh_mile_session = Fin 0" "pausedTime seventh_mile_session = 0"
    "activityType seventh_mile_session = RUN" "gpsFilteringMode seventh_mile_session = ''kalman''"
    by (simp_all add: t storePosition_fields splitStep_frame)
  show "positions seventh_mile_session
     = [\<lparr> sp_latitude = Fin 0, sp_longitude = Fin 0, sp_altitude = None,
          sp_accuracy = Fin 5, sp_timestamp = Fin 1000 \<rparr>,
        \<lparr> sp_latitude = Fin (16 / 1000000), sp_longitude = Fin 0, sp_altitude = None,
          sp_accuracy = Fin 5, sp_timestamp = Fin 3601000 \<rparr>]"
    by (simp add: t storePosition_fields splitStep_frame six fp)
  show "distance seventh_mile_session = Fin (11265 + 6371000 * (16 / 1000000 * pi / 180))"
    by (simp add: t storePosition_fields splitStep_frame)
  show "map s_km (splits seventh_mile_session) = [Fin 1, Fin 2, Fin 3, Fin 4, Fin 5, Fin 6, Fin 7]"
    using sp(1) by (simp add: t(1,3) storePosition_fields six)
  show "lastSplitDistance seventh_mile_session = double (Fin 7 * double (Fin (1609344 / 1000)))"
    using sp(2) by (simp add: t(1) storePosition_fields)
  show "latFilter seventh_mile_session = \<lparr> kf_Q = Fin 3, kf_R = Fin (1 / 4),
     kf_x = Some (Fin (16 / 1000000)), kf_P = Fin (4 / 17), kf_K = Fin (16 / 17) \<rparr>"
    "lonFilter seventh_mile_session = \<lparr> kf_Q = Fin 3, kf_R = Fin (1 / 4),
     kf_x = Some (Fin 0), kf_P = Fin (4 / 17), kf_K = Fin (16 / 17) \<rparr>"
    by (simp_all only: t(1) storePosition_fields splitStep_frame t(6,7) filters)
qed

lemma next_fix_accepted:
  "\<not> positionAccuracy next_fix > Fin 20"
  "\<not> invalidCoordinates (latitude (coords (standardise (date_now (mile_env 3602000)) next_fix)))
       (longitude (coords (standardise (date_now (mile_env 3602000)) next_fix)))"
  "positions seventh_mile_session \<noteq> []"
  "filterLocation (mile_env 3602000)
     (snd (applyGpsFilter (positionAccuracy next_fix)
        (standardise (date_now (mile_env 3602000)) next_fix) seventh_mile_session))
     (standardise (date_now (mile_env 3602000))
        (raw_of_stored (last (positions seventh_mile_session))))"
  by (simp_all add: positionAccuracy_def next_fix_def fix_at_def standardise_def
      invalidCoordinates_def seventh_mile_session_fields mile_env_def env_at_def)

lemma next_fix_filtered:
  "snd (applyGpsFilter (positionAccuracy next_fix)
        (standardise (date_now (mile_env 3602000)) next_fix) seventh_mile_session)
     = \<lparr> timestamp = Fin 3602000,
         coords = \<lparr> latitude = Fin (189 / 4937500), longitude = Fin 0, accuracy = Fin 5,
                    altitude = None \<rparr> \<rparr>"
  by (simp add: positionAccuracy_def next_fix_def fix_at_def standardise_def mile_env_def
      env_at_def applyGpsFilter_def kf_filter_def adjustParameters_def Let_def minus_jsnum_def
      seventh_mile_session_fields)

lemma next_fix_increment:
  "calculateDistance (sp_latitude (last (positions seventh_mile_session)))
     (sp_longitude (last (positions seventh_mile_session)))
     (latitude (coords (snd (applyGpsFilter (positionAccuracy next_fix)
        (standardise (date_now (mile_env 3602000)) next_fix) seventh_mile_session))))
     (longitude (coords (snd (applyGpsFilter (positionAccuracy next_fix)
        (standardise (date_now (mile_env 3602000)) next_fix) seventh_mile_session))))
   = Fin (6371000 * (11 / 493750 * pi / 180))"
  "1 / 2 \<le> 6371000 * (11 / 493750 * pi / 180)"
  "7 * (1609344 / 1000) + 1 / 2
     \<le> 11265 + 6371000 * (16 / 1000000 * pi / 180) + 6371000 * (11 / 493750 * pi / 180)"
  "11265 + 6371000 * (16 / 1000000 * pi / 180) + 6371000 * (11 / 493750 * pi / 180)
     \<le> 8 * (1609344 / 1000) - 1 / 2"
proof -
  show "calculateDistance (sp_latitude (last (positions seventh_mile_session)))
     (sp_longitude (last (positions seventh_mile_session)))
     (latitude (coords (snd (applyGpsFilter (positionAccuracy next_fix)
        (standardise (date_now (mile_env 3602000)) next_fix) seventh_mile_session))))
     (longitude (coords (snd (applyGpsFilter (positionAccuracy next_fix)
        (standardise (date_now (mile_env 3602000)) next_fix) seventh_mile_session))))
   = Fin (6371000 * (11 / 493750 * pi / 180))"
    unfolding next_fix_filtered
    using calculateDistance_meridian [of "189 / 4937500" "16 / 1000000" 0]
    by (simp add: seventh_mile_session_fields)
  show "1 / 2 \<le> 6371000 * (11 / 493750 * pi / 180)"
    "7 * (1609344 / 1000) + 1 / 2
     \<le> 11265 + 6371000 * (16 / 1000000 * pi / 180) + 6371000 * (11 / 493750 * pi / 180)"
    "11265 + 6371000 * (16 / 1000000 * pi / 180) + 6371000 * (11 / 493750 * pi / 180)
     \<le> 8 * (1609344 / 1000) - 1 / 2"
    using pi_ge_two pi_less_4 by simp_all
qed

text \<open>
  C8. In miles the code records a whole-unit crossing more than once. When mile seven is
  completed the code stores \<open>lastSplitDistance = 7 * 1609.344\<close>, a double whose quotient
  by \<open>1609.344\<close> is the double below \<open>7\<close>, with floor \<open>6\<close>. So on a tracker that holds this
  value, every fix that passes the gates and the quality filter, moves at least 0.5 m,
  reaches no goal and leaves the distance at least half a metre inside the eighth mile
  records one more split with unit number \<open>7\<close> and \<open>isPartial = false\<close>, and stores the same
  \<open>lastSplitDistance\<close> again: the next such fix does the same.
\<close>

theorem mile_seven_recorded_again:
  assumes "getDistanceUnit e \<noteq> ''km''"
    and "isTracking s" and "\<not> isPaused s"
    and "cur = standardise (date_now e) p"
    and "\<not> positionAccuracy p > Fin 20"
    and "\<not> invalidCoordinates (latitude (coords cur)) (longitude (coords cur))"
    and "fp = snd (applyGpsFilter (positionAccuracy p) cur s)"
    and "positions s \<noteq> []"
    and "filterLocation e fp (standardise (date_now e) (raw_of_stored (last (positions s))))"
    and "calculateDistance (sp_latitude (last (positions s))) (sp_longitude (last (positions s)))
           (latitude (coords fp)) (longitude (coords fp)) = Fin i"
    and "1 / 2 \<le> i"
    and "distanceGoal s = None"
    and "distance s = Fin d"
    and "7 * (1609344 / 1000) + 1 / 2 \<le> d + i" and "d + i \<le> 8 * (1609344 / 1000) - 1 / 2"
    and "lastSplitDistance s = double (Fin 7 * double (Fin (1609344 / 1000)))"
  shows "distance (fst (addPosition e p s)) = Fin (d + i)
     \<and> Math_floor (double (lastSplitDistance s / double (Fin (1609344 / 1000)))) = Fin 6
     \<and> splits (fst (addPosition e p s))
         = splits s @ [\<lparr> s_km = Fin 7,
             s_time = (timestamp cur - startTime s - Fin (pausedTime s)) / Fin 1000,
             s_pace = double (double ((timestamp cur - startTime s - Fin (pausedTime s)) / Fin 1000
                        - (if splits s \<noteq> [] then s_time (last (splits s)) else Fin 0))
                      / double (Fin (1609344 / 1000))),
             s_isPartial = False \<rparr>]
     \<and> lastSplitDistance (fst (addPosition e p s)) = lastSplitDistance s"
proof -
  have inc: "Fin i \<ge> Fin (1 / 2)" using assms(11) by simp
  have goal: "\<forall>g. distanceGoal s = Some g \<longrightarrow> \<not> (truthy g \<and> distance s + Fin i \<ge> g)"
    using assms(12) by simp
  obtain t where t: "fst (addPosition e p s) = storePosition e fp (fst (splitStep e t))"
    "distance t = distance s + Fin i"
    "duration t = (timestamp cur - startTime s - Fin (pausedTime s)) / Fin 1000"
    "splits t = splits s" "lastSplitDistance t = lastSplitDistance s"
    using accepted_fix_effect [OF assms(2,3,4,5,6,7,8,9) assms(10) [symmetric] inc goal] by blast
  have d: "distance t = Fin (d + i)" using t(2) assms(13) by simp
  have l: "lastSplitDistance t = Fin (3096611771910193 / 274877906944)"
    using t(5) assms(16) by (simp only: stored_mile_seven)
  have seven: "\<lfloor>fl ((d + i) / fl (1609344 / 1000))\<rfloor> = 7"
    using assms(14,15) by (rule in_mile_seven)
  have less: "\<lfloor>fl (3096611771910193 / 274877906944 / fl (1609344 / 1000))\<rfloor>
                < \<lfloor>fl ((d + i) / fl (1609344 / 1000))\<rfloor>"
    by (simp only: seven stored_mile_seven)
  have a: "distance (fst (addPosition e p s)) = Fin (d + i)"
    by (simp only: t(1) storePosition_fields splitStep_frame d)
  have b: "Math_floor (double (lastSplitDistance s / double (Fin (1609344 / 1000)))) = Fin 6"
    by (simp add: assms(16) mile_double_norm mile_products_norm mile_quotients_norm)
  have c: "splits (fst (addPosition e p s))
         = splits s @ [\<lparr> s_km = Fin 7,
             s_time = (timestamp cur - startTime s - Fin (pausedTime s)) / Fin 1000,
             s_pace = double (double ((timestamp cur - startTime s - Fin (pausedTime s)) / Fin 1000
                        - (if splits s \<noteq> [] then s_time (last (splits s)) else Fin 0))
                      / double (Fin (1609344 / 1000))),
             s_isPartial = False \<rparr>]"
    unfolding t(1) storePosition_fields
    using splitStep_mile_full [OF assms(1) d l less, unfolded seven t(3) t(4)] by simp
  have e: "lastSplitDistance (fst (addPosition e p s)) = lastSplitDistance s"
    unfolding t(1) storePosition_fields
    using splitStep_mile(2) [OF assms(1) d l less, unfolded seven] by (simp add: assms(16))
  show ?thesis using a b c e by (intro conjI)
qed

text \<open>
  The session in miles: the fix that completes mile seven records split 7 and stores
  \<open>7 * 1609.344\<close>; the fix a second later, 2.5 m further on, records split 7 again.
\<close>

theorem mile_seven_recorded_again_witness:
  "getDistanceUnit (mile_env 3602000) \<noteq> ''km''
   \<and> lastSplitDistance seventh_mile_session = double (Fin 7 * double (Fin (1609344 / 1000)))
   \<and> map s_km (splits seventh_mile_session) = [Fin 1, Fin 2, Fin 3, Fin 4, Fin 5, Fin 6, Fin 7]
   \<and> map s_km (splits (fst (addPosition (mile_env 3602000) next_fix seventh_mile_session)))
       = [Fin 1, Fin 2, Fin 3, Fin 4, Fin 5, Fin 6, Fin 7, Fin 7]
   \<and> lastSplitDistance (fst (addPosition (mile_env 3602000) next_fix seventh_mile_session))
       = lastSplitDistance seventh_mile_session"
  using mile_seven_recorded_again [OF mile_env_unit seventh_mile_session_fields(1,2) refl
      next_fix_accepted(1,2) refl next_fix_accepted(3,4) next_fix_increment(1,2)
      seventh_mile_session_fields(7,4) next_fix_increment(3,4) seventh_mile_session_fields(6)]
  by (simp add: mile_env_unit seventh_mile_session_fields(5,6))

subsection \<open>Gap filling\<close>

lemma train_trained: "2 \<le> length data \<Longrightarrow> trained (train data m)"
  by (simp add: train_def Let_def split_def)

lemma updateVelocityAndAcceleration_frame:
  "positionHistory (updateVelocityAndAcceleration a) = positionHistory a"
  "historySize (updateVelocityAndAcceleration a) = historySize a"
  "latModel (updateVelocityAndAcceleration a) = latModel a"
  "lonModel (updateVelocityAndAcceleration a) = lonModel a"
  by (simp_all add: updateVelocityAndAcceleration_def Let_def)

lemma trainModels_frame:
  "positionHistory (trainModels a) = positionHistory a"
  "historySize (trainModels a) = historySize a"
  by (simp_all add: trainModels_def Let_def)

lemma trainModels_trained: "models_trained (trainModels a)"
  by (simp add: models_trained_def trainModels_def Let_def train_trained)

lemma analyzer_addPosition_history:
  "positionHistory (analyzer_addPosition pos a) = push_bounded (historySize a) pos (positionHistory a)"
  "historySize (analyzer_addPosition pos a) = historySize a"
  "models_trained (analyzer_addPosition pos a)"
  by (simp_all add: analyzer_addPosition_def trainModels_frame updateVelocityAndAcceleration_frame
      trainModels_trained)

lemma processPosition_inv:
  assumes "models_trained (patternAnalyzer g)"
  shows "models_trained (patternAnalyzer (fst (processPosition now position g)))"
    and "maxGapDuration (fst (processPosition now position g)) = maxGapDuration g"
  using assms
  by (simp_all add: processPosition_def Let_def analyzer_addPosition_history split: option.splits)

lemma gap_run_inv:
  "models_trained (patternAnalyzer g) \<Longrightarrow> models_trained (patternAnalyzer (gap_run cs g))"
  by (induction cs arbitrary: g) (simp_all add: processPosition_inv)

lemma gap_run_maxGapDuration: "maxGapDuration (gap_run cs g) = maxGapDuration g"
  by (induction cs arbitrary: g) (simp_all add: processPosition_def Let_def split: option.splits)

lemma new_GPSGapFiller_inv:
  "models_trained (patternAnalyzer new_GPSGapFiller)" "maxGapDuration new_GPSGapFiller = 60000"
  by (simp_all add: models_trained_def new_GPSGapFiller_def new_MovementPatternAnalyzer_def)

lemma fillGap_late: "maxGapDuration g < now - gapStartTime g \<Longrightarrow> fillGap now g = None"
  by (simp add: fillGap_def)

lemma predictPosition_confidence:
  assumes "models_trained a" and "3 \<le> length (positionHistory a)"
    and "hp_timestamp (last (positionHistory a)) = Fin tlast"
  shows "\<exists>p. predictPosition (Fin now) a = Some p \<and> pp_timestamp p = Fin now
           \<and> pp_confidence p = Fin (max (1 / 10) (9 / 10 * exp (- ((now - tlast) / 1000) / 30)))"
  using assms
  by (auto simp add: predictPosition_def models_trained_def predict_def Let_def minus_jsnum_def
      Math_max_Fin simp del: Math_max.simps)

lemma fillGap_in_time:
  assumes "models_trained (patternAnalyzer g)" and "3 \<le> length (positionHistory (patternAnalyzer g))"
    and "hp_timestamp (last (positionHistory (patternAnalyzer g))) = Fin tlast"
    and "\<not> maxGapDuration g < now - gapStartTime g"
  shows "(3 / 10 < 9 / 10 * exp (- ((now - tlast) / 1000) / 30) \<longrightarrow>
           (\<exists>p. fillGap now g = Some p \<and> pp_timestamp p = Fin now
              \<and> pp_confidence p = Fin (9 / 10 * exp (- ((now - tlast) / 1000) / 30))))
       \<and> (\<not> 3 / 10 < 9 / 10 * exp (- ((now - tlast) / 1000) / 30) \<longrightarrow> fillGap now g = None)"
proof -
  from predictPosition_confidence [OF assms(1-3), of now]
  obtain p where p: "predictPosition (Fin now) (patternAnalyzer g) = Some p" "pp_timestamp p = Fin now"
    "pp_confidence p = Fin (max (1 / 10) (9 / 10 * exp (- ((now - tlast) / 1000) / 30)))" by blast
  show ?thesis using assms(4) p by (auto simp add: fillGap_def Let_def max_def)
qed

lemma fillGap_confident:
  "fillGap now g = Some p \<Longrightarrow> Fin (3 / 10) < pp_confidence p"
  by (auto simp add: fillGap_def Let_def split: option.splits if_splits)

lemma gap_session_fields:
  "gapStartTime gap_session = 13000"
  "length (positionHistory (patternAnalyzer gap_session)) = 3"
  "hp_timestamp (last (positionHistory (patternAnalyzer gap_session))) = Fin 3000"
  by (simp_all add: gap_session_def processPosition_def Let_def analyzer_addPosition_history
      push_bounded_def or_else_def gap_fix_def new_GPSGapFiller_def new_MovementPatternAnalyzer_def)

lemma exp_bounds:
  "(3 :: real) / 10 < 9 / 10 * exp (- (17 / 30))"
  "\<not> (3 :: real) / 10 < 9 / 10 * exp (- 2)"
proof -
  have "1 + (- (17 / 30)) \<le> exp (- (17 / 30) :: real)" by (rule exp_ge_add_one_self)
  then show "(3 :: real) / 10 < 9 / 10 * exp (- (17 / 30))" by simp
  have "1 + 2 \<le> exp (2 :: real)" by (rule exp_ge_add_one_self)
  then have "exp (- 2 :: real) \<le> 1 / 3"
    by (simp add: exp_minus inverse_eq_divide divide_le_eq)
  then show "\<not> (3 :: real) / 10 < 9 / 10 * exp (- 2)" by simp
qed

lemma confidence_upper:
  fixes now tlast :: real
  assumes "tlast \<le> now"
  shows "9 / 10 * exp (- ((now - tlast) / 1000) / 30) \<le> 9 / 10"
proof -
  have "- ((now - tlast) / 1000) / 30 \<le> 0" using assms by simp
  then have "exp (- ((now - tlast) / 1000) / 30) \<le> 1" by (simp only: exp_le_one_iff)
  then show ?thesis by simp
qed

text \<open>
  C5, as stated, fails: 50 s into the gap (within the limit of 60 s) and with three points
  of history, \<open>fillGap\<close> returns \<open>null\<close>, because the last fix is 60 s old and the
  confidence \<open>max(0.1, 0.9 exp(-60/30))\<close> does not exceed 0.3.
\<close>

theorem fillGap_null_before_limit:
  "63000 - gapStartTime gap_session \<le> 60000
   \<and> length (positionHistory (patternAnalyzer gap_session)) = 3
   \<and> fillGap 63000 gap_session = None"
proof -
  have "models_trained (patternAnalyzer gap_session)"
    unfolding gap_session_def by (rule gap_run_inv) (rule new_GPSGapFiller_inv)
  moreover have "maxGapDuration gap_session = 60000"
    unfolding gap_session_def by (simp only: gap_run_maxGapDuration new_GPSGapFiller_inv)
  then have "\<not> maxGapDuration gap_session < 63000 - gapStartTime gap_session"
    by (simp add: gap_session_fields)
  ultimately have "fillGap 63000 gap_session = None"
    using fillGap_in_time [of gap_session 3000 63000] exp_bounds(2)
    by (simp add: gap_session_fields)
  then show ?thesis by (simp add: gap_session_fields)
qed

text \<open>
  C5, amended. For a gap filler fed by any run of \<open>processPosition\<close> calls: \<open>fillGap\<close>
  returns \<open>null\<close> once \<open>now - gapStartTime > 60000\<close>; whatever it returns has a confidence
  above 0.3; and up to the limit, with at least three points of history (the last with a
  finite timestamp \<open>tlast\<close>), it returns a position exactly when
  \<open>0.9 exp(-((now - tlast) / 1000) / 30) > 0.3\<close>, with that number as confidence (at most 0.9
  when \<open>now\<close> is not before the last fix), and \<open>null\<close> otherwise.
\<close>

theorem fillGap_within_gap_limit:
  assumes "g = gap_run cs new_GPSGapFiller"
  shows "(now - gapStartTime g > 60000 \<longrightarrow> fillGap now g = None)
       \<and> (\<forall>p. fillGap now g = Some p \<longrightarrow> Fin (3 / 10) < pp_confidence p)
       \<and> (now - gapStartTime g \<le> 60000 \<and> 3 \<le> length (positionHistory (patternAnalyzer g))
            \<and> hp_timestamp (last (positionHistory (patternAnalyzer g))) = Fin tlast \<longrightarrow>
           (if 3 / 10 < 9 / 10 * exp (- ((now - tlast) / 1000) / 30)
            then \<exists>p. fillGap now g = Some p \<and> pp_timestamp p = Fin now
                   \<and> pp_confidence p = Fin (9 / 10 * exp (- ((now - tlast) / 1000) / 30))
                   \<and> (tlast \<le> now \<longrightarrow> pp_confidence p \<le> Fin (9 / 10))
            else fillGap now g = None))"
proof -
  have inv: "models_trained (patternAnalyzer g)" "maxGapDuration g = 60000"
    by (simp_all add: assms gap_run_inv gap_run_maxGapDuration new_GPSGapFiller_inv)
  have late: "now - gapStartTime g > 60000 \<longrightarrow> fillGap now g = None"
    using fillGap_late [of g now] inv(2) by simp
  have conf: "\<forall>p. fillGap now g = Some p \<longrightarrow> Fin (3 / 10) < pp_confidence p"
    using fillGap_confident by blast
  have main: "(if 3 / 10 < 9 / 10 * exp (- ((now - tlast) / 1000) / 30)
            then \<exists>p. fillGap now g = Some p \<and> pp_timestamp p = Fin now
                   \<and> pp_confidence p = Fin (9 / 10 * exp (- ((now - tlast) / 1000) / 30))
                   \<and> (tlast \<le> now \<longrightarrow> pp_confidence p \<le> Fin (9 / 10))
            else fillGap now g = None)"
    if h: "now - gapStartTime g \<le> 60000" "3 \<le> length (positionHistory (patternAnalyzer g))"
      "hp_timestamp (last (positionHistory (patternAnalyzer g))) = Fin tlast"
  proof (cases "3 / 10 < 9 / 10 * exp (- ((now - tlast) / 1000) / 30)")
    case True
    have "\<not> maxGapDuration g < now - gapStartTime g" using h(1) inv(2) by simp
    from fillGap_in_time [OF inv(1) h(2,3) this] True
    obtain p where p: "fillGap now g = Some p" "pp_timestamp p = Fin now"
      "pp_confidence p = Fin (9 / 10 * exp (- ((now - tlast) / 1000) / 30))" by blast
    have "tlast \<le> now \<longrightarrow> pp_confidence p \<le> Fin (9 / 10)"
      using confidence_upper [of tlast now] by (simp only: p(3) less_eq_jsnum.simps) blast
    with p have "\<exists>p. fillGap now g = Some p \<and> pp_timestamp p = Fin now
                   \<and> pp_confidence p = Fin (9 / 10 * exp (- ((now - tlast) / 1000) / 30))
                   \<and> (tlast \<le> now \<longrightarrow> pp_confidence p \<le> Fin (9 / 10))"
      by (intro exI [of _ p] conjI)
    then show ?thesis by (simp only: True if_True)
  next
    case False
    have "\<not> maxGapDuration g < now - gapStartTime g" using h(1) inv(2) by simp
    from fillGap_in_time [OF inv(1) h(2,3) this] False
    have "fillGap now g = None" by blast
    with False show ?thesis by (simp only: if_False)
  qed
  have main': "now - gapStartTime g \<le> 60000 \<and> 3 \<le> length (positionHistory (patternAnalyzer g))
            \<and> hp_timestamp (last (positionHistory (patternAnalyzer g))) = Fin tlast \<longrightarrow>
           (if 3 / 10 < 9 / 10 * exp (- ((now - tlast) / 1000) / 30)
            then \<exists>p. fillGap now g = Some p \<and> pp_timestamp p = Fin now
                   \<and> pp_confidence p = Fin (9 / 10 * exp (- ((now - tlast) / 1000) / 30))
                   \<and> (tlast \<le> now \<longrightarrow> pp_confidence p \<le> Fin (9 / 10))
            else fillGap now g = None)"
  proof (intro impI, elim conjE)
    assume "now - gapStartTime g \<le> 60000" "3 \<le> length (positionHistory (patternAnalyzer g))"
      "hp_timestamp (last (positionHistory (patternAnalyzer g))) = Fin tlast"
    then show "if 3 / 10 < 9 / 10 * exp (- ((now - tlast) / 1000) / 30)
            then \<exists>p. fillGap now g = Some p \<and> pp_timestamp p = Fin now
                   \<and> pp_confidence p = Fin (9 / 10 * exp (- ((now - tlast) / 1000) / 30))
                   \<and> (tlast \<le> now \<longrightarrow> pp_confidence p \<le> Fin (9 / 10))
            else fillGap now g = None" by (rule main)
  qed
  show ?thesis by (intro conjI) (rule late conf main')+
qed

theorem fillGap_within_gap_limit_witness:
  "20000 - gapStartTime gap_session \<le> 60000
   \<and> 3 \<le> length (positionHistory (patternAnalyzer gap_session))
   \<and> (\<exists>p. fillGap 20000 gap_session = Some p \<and> pp_timestamp p = Fin 20000
          \<and> pp_confidence p = Fin (9 / 10 * exp (- (17 / 30))))
   \<and> 80000 - gapStartTime gap_session > 60000
   \<and> fillGap 80000 gap_session = None"
proof -
  have e: "- (((20000 :: real) - 3000) / 1000) / 30 = - (17 / 30)" by simp
  have "\<exists>p. fillGap 20000 gap_session = Some p \<and> pp_timestamp p = Fin 20000
          \<and> pp_confidence p = Fin (9 / 10 * exp (- (17 / 30)))
          \<and> ((3000 :: real) \<le> 20000 \<longrightarrow> pp_confidence p \<le> Fin (9 / 10))"
    using fillGap_within_gap_limit [of gap_session _ 20000 3000, OF gap_session_def]
      exp_bounds(1)
    by (simp only: gap_session_fields e if_True) simp
  then obtain p where "fillGap 20000 gap_session = Some p" "pp_timestamp p = Fin 20000"
    "pp_confidence p = Fin (9 / 10 * exp (- (17 / 30)))" by (elim exE conjE)
  then have "\<exists>p. fillGap 20000 gap_session = Some p \<and> pp_timestamp p = Fin 20000
          \<and> pp_confidence p = Fin (9 / 10 * exp (- (17 / 30)))"
    by (intro exI [of _ p] conjI)
  moreover have "fillGap 80000 gap_session = None"
    using fillGap_within_gap_limit [of gap_session _ 80000 3000, OF gap_session_def]
    by (simp add: gap_session_fields)
  ultimately show ?thesis by (simp add: gap_session_fields)
qed

end
